theory Spec2Isabelle
  imports Complex_Main "HOL-Library.Multiset" "HOL-Library.Sublist" "HOL-Library.Option_ord"
begin

section \<open>Values, exceptions and tables\<close>

text \<open>
  The notebook \<^verbatim>\<open>palmer-penguins.ipynb\<close> is a sequence of code cells that bind global
  names and call into pandas, scikit-learn, seaborn and matplotlib. The cells are the
  program; the library operations are its primitives. Primitives whose result is a fixed
  function of their arguments (\<^verbatim>\<open>dropna\<close>, \<^verbatim>\<open>.loc\<close>, \<^verbatim>\<open>train_test_split\<close>
  once the shuffle is given, \<^verbatim>\<open>accuracy_score\<close>, \<^verbatim>\<open>classification_report\<close>) are
  written out below with the arguments the notebook passes, following the behaviour the
  notebook's own prose describes and the libraries document. Primitives that depend on
  data or algorithms outside the notebook (the bundled dataset, the random generator,
  tree fitting, prediction, plotting) are parameters of the model.
\<close>

datatype error =
    NameError string
  | KeyError "string list"
  | ValueError
  | IndexError
  | LibraryError string

text \<open>Sequencing: an exception raised by a step ends the computation with that exception.\<close>

definition and_then :: "'x + 'a \<Rightarrow> ('a \<Rightarrow> 'x + 'b) \<Rightarrow> 'x + 'b" where
  "and_then m f = (case m of Inl e \<Rightarrow> Inl e | Inr x \<Rightarrow> f x)"

text \<open>
  A Python float that is the quotient of two counts: the exact quotient, or not-a-number
  when the denominator is zero (the mean of an empty array).
\<close>

datatype pyfloat = Finite rat | NaN

text \<open>
  A DataFrame: column labels, and rows of an index label with one cell per column.
  A cell is \<open>None\<close> where pandas shows \<^verbatim>\<open>NaN\<close>. A Series is one column with the index.
\<close>

type_synonym 'v row = "nat \<times> 'v option list"

record 'v frame =
  columns :: "string list"
  rows :: "'v row list"

type_synonym 'v series = "(nat \<times> 'v option) list"

definition wf_frame :: "'v frame \<Rightarrow> bool" where
  "wf_frame df \<longleftrightarrow>
     distinct (columns df) \<and>
     list_all (\<lambda>r. length (snd r) = length (columns df)) (rows df)"

definition values_of :: "'v series \<Rightarrow> 'v option list" where
  "values_of s = map snd s"

fun column_position :: "string \<Rightarrow> string list \<Rightarrow> nat" where
  "column_position c [] = 0"
| "column_position c (x # xs) = (if x = c then 0 else Suc (column_position c xs))"

definition cell_at :: "'v option list \<Rightarrow> nat \<Rightarrow> 'v option" where
  "cell_at cs k = (if k < length cs then cs ! k else None)"

text \<open>The cell of row number \<open>i\<close> (by position) in the column labelled \<open>c\<close>.\<close>

definition cell :: "'v frame \<Rightarrow> nat \<Rightarrow> string \<Rightarrow> 'v option" where
  "cell df i c = cell_at (snd (rows df ! i)) (column_position c (columns df))"

section \<open>pandas: dropna and .loc\<close>

text \<open>
  \<^verbatim>\<open>data.dropna()\<close> with its defaults (rows, \<^verbatim>\<open>how='any'\<close>): in the notebook's words,
  "discard all the incomplete data points".
\<close>

definition complete_row :: "'v row \<Rightarrow> bool" where
  "complete_row r \<longleftrightarrow> list_all (\<lambda>c. c \<noteq> None) (snd r)"

definition dropna :: "'v frame \<Rightarrow> 'v frame" where
  "dropna df = df\<lparr>rows := filter complete_row (rows df)\<rparr>"

text \<open>
  \<^verbatim>\<open>data.loc[:, cols]\<close> with a list of labels: all rows, the listed columns in the listed
  order; \<^verbatim>\<open>KeyError\<close> when a label is not a column.
\<close>

definition loc_columns :: "'v frame \<Rightarrow> string list \<Rightarrow> error + 'v frame" where
  "loc_columns df cols =
     (case filter (\<lambda>c. c \<notin> set (columns df)) cols of
        [] \<Rightarrow> Inr \<lparr>columns = cols,
                   rows = map (\<lambda>r. (fst r, map (\<lambda>c. cell_at (snd r) (column_position c (columns df))) cols))
                              (rows df)\<rparr>
      | m # ms \<Rightarrow> Inl (KeyError (m # ms)))"

text \<open>\<^verbatim>\<open>data.loc[:, c]\<close> with one label: that column as a Series.\<close>

definition loc_column :: "'v frame \<Rightarrow> string \<Rightarrow> error + 'v series" where
  "loc_column df c =
     (if c \<in> set (columns df)
      then Inr (map (\<lambda>r. (fst r, cell_at (snd r) (column_position c (columns df)))) (rows df))
      else Inl (KeyError [c]))"

text \<open>\<^verbatim>\<open>y.unique()\<close>: the distinct values in order of first appearance.\<close>

definition unique :: "'a list \<Rightarrow> 'a list" where
  "unique xs = rev (remdups (rev xs))"

section \<open>scikit-learn: train_test_split\<close>

text \<open>
  \<^verbatim>\<open>train_test_split(X, y, test_size=t)\<close> with a float \<open>t\<close> and shuffling on. The
  shuffle \<open>perm\<close> is the random generator's permutation of the row positions; the test
  part takes its first \<open>ceil(t * n)\<close> positions and the training part the rest.
  \<^verbatim>\<open>ValueError\<close> for arrays of different lengths, for \<open>t\<close> outside \<open>(0, 1)\<close>, and
  when the training part would be empty. Rows are taken by position
  (\<^verbatim>\<open>IndexError\<close> out of range). The result is in the order
  \<^verbatim>\<open>X_train, X_test, y_train, y_test\<close>.
\<close>

definition take_rows :: "'a list \<Rightarrow> nat list \<Rightarrow> error + 'a list" where
  "take_rows xs idx =
     (if list_all (\<lambda>i. i < length xs) idx then Inr (map (nth xs) idx) else Inl IndexError)"

definition n_test_of :: "rat \<Rightarrow> nat \<Rightarrow> nat" where
  "n_test_of test_size n = nat \<lceil>test_size * of_nat n\<rceil>"

definition train_test_split ::
  "'v frame \<Rightarrow> 'v series \<Rightarrow> rat \<Rightarrow> nat list \<Rightarrow>
     error + ('v frame \<times> 'v frame \<times> 'v series \<times> 'v series)" where
  "train_test_split X y test_size perm =
     (let n = length (rows X) in
      if length y \<noteq> n then Inl ValueError
      else if test_size \<le> 0 \<or> 1 \<le> test_size then Inl ValueError
      else
        let n_test = n_test_of test_size n;
            n_train = n - n_test
        in if n_train = 0 then Inl ValueError
           else
             let ind_test = take n_test perm;
                 ind_train = take n_train (drop n_test perm)
             in and_then (take_rows (rows X) ind_train) (\<lambda>X_train.
                and_then (take_rows (rows X) ind_test) (\<lambda>X_test.
                and_then (take_rows y ind_train) (\<lambda>y_train.
                and_then (take_rows y ind_test) (\<lambda>y_test.
                  Inr (X\<lparr>rows := X_train\<rparr>, X\<lparr>rows := X_test\<rparr>, y_train, y_test))))))"

section \<open>scikit-learn: metrics\<close>

text \<open>
  The notebook: "accuracy = correct / total". \<^verbatim>\<open>accuracy_score(y_true, y_pred)\<close>
  raises \<^verbatim>\<open>ValueError\<close> for arrays of different lengths.
\<close>

definition correct :: "'a list \<Rightarrow> 'a list \<Rightarrow> nat" where
  "correct y_true y_pred = length (filter (\<lambda>(t, p). t = p) (zip y_true y_pred))"

definition true_div :: "nat \<Rightarrow> nat \<Rightarrow> pyfloat" where
  "true_div a b = (if b = 0 then NaN else Finite (of_nat a / of_nat b))"

definition accuracy_score :: "'a list \<Rightarrow> 'a list \<Rightarrow> error + pyfloat" where
  "accuracy_score y_true y_pred =
     (if length y_true \<noteq> length y_pred then Inl ValueError
      else Inr (true_div (correct y_true y_pred) (length y_true)))"

text \<open>
  The notebook: "Precision is the proportion of positive identifications that was
  actually correct. Recall is the proportion of actual positives that was identified
  correctly. F1 score is a function of precision and recall": their harmonic mean.
  A ratio with denominator zero is reported as 0 (the library's \<^verbatim>\<open>zero_division\<close>
  default). \<^verbatim>\<open>classification_report(y_true, y_pred)\<close> has one line per label, the
  labels of both arrays in ascending order, and the accuracy. The report is kept as
  numbers; its layout as text and its averaged lines are left out.
\<close>

definition ratio0 :: "nat \<Rightarrow> nat \<Rightarrow> rat" where
  "ratio0 a b = (if b = 0 then 0 else of_nat a / of_nat b)"

definition true_positives :: "'a \<Rightarrow> 'a list \<Rightarrow> 'a list \<Rightarrow> nat" where
  "true_positives c y_true y_pred =
     length (filter (\<lambda>(t, p). t = c \<and> p = c) (zip y_true y_pred))"

definition precision_of :: "'a \<Rightarrow> 'a list \<Rightarrow> 'a list \<Rightarrow> rat" where
  "precision_of c y_true y_pred = ratio0 (true_positives c y_true y_pred) (count_list y_pred c)"

definition recall_of :: "'a \<Rightarrow> 'a list \<Rightarrow> 'a list \<Rightarrow> rat" where
  "recall_of c y_true y_pred = ratio0 (true_positives c y_true y_pred) (count_list y_true c)"

definition f1_of :: "rat \<Rightarrow> rat \<Rightarrow> rat" where
  "f1_of p r = (if p + r = 0 then 0 else 2 * p * r / (p + r))"

record class_metrics =
  precision :: rat
  recall :: rat
  f1_score :: rat
  support :: nat

record 'a report =
  per_class :: "('a \<times> class_metrics) list"
  accuracy :: pyfloat

definition class_line :: "'a list \<Rightarrow> 'a list \<Rightarrow> 'a \<Rightarrow> 'a \<times> class_metrics" where
  "class_line y_true y_pred c =
     (c, \<lparr>precision = precision_of c y_true y_pred,
          recall = recall_of c y_true y_pred,
          f1_score = f1_of (precision_of c y_true y_pred) (recall_of c y_true y_pred),
          support = count_list y_true c\<rparr>)"

definition classification_report ::
  "('a::linorder) list \<Rightarrow> 'a list \<Rightarrow> error + 'a report" where
  "classification_report y_true y_pred =
     (if length y_true \<noteq> length y_pred then Inl ValueError
      else Inr \<lparr>per_class = map (class_line y_true y_pred) (sort (remdups (y_true @ y_pred))),
                accuracy = true_div (correct y_true y_pred) (length y_true)\<rparr>)"

section \<open>The opaque library operations\<close>

text \<open>
  What the notebook calls and cannot be computed from its text: the dataset that
  \<^verbatim>\<open>sns.load_dataset\<close> returns, the random generator behind the shuffle and the tree
  fitting (its state \<open>'r\<close> is threaded through), the classifier \<open>'m\<close> with its
  \<^verbatim>\<open>fit\<close> and \<^verbatim>\<open>predict\<close>, and the figure \<open>'p\<close> that \<^verbatim>\<open>plt.subplots\<close> creates and
  \<^verbatim>\<open>plot_tree\<close> draws on. Each may raise an exception of its own, kept by its name.
\<close>

record ('v, 'm, 'r, 'p) library =
  load_dataset :: "string \<Rightarrow> string + 'v frame"
  rng_permutation :: "'r \<Rightarrow> nat \<Rightarrow> nat list \<times> 'r"
  DecisionTreeClassifier :: "nat \<Rightarrow> 'm"
  fit :: "'r \<Rightarrow> 'm \<Rightarrow> 'v frame \<Rightarrow> 'v series \<Rightarrow> string + ('m \<times> 'r)"
  predict :: "'m \<Rightarrow> 'v frame \<Rightarrow> string + 'v option list"
  plot_tree :: "'m \<Rightarrow> string list \<Rightarrow> 'v option list \<Rightarrow> string + 'p"

definition lib :: "string + 'a \<Rightarrow> error + 'a" where
  "lib r = (case r of Inl e \<Rightarrow> Inl (LibraryError e) | Inr x \<Rightarrow> Inr x)"

section \<open>The notebook's state\<close>

text \<open>
  Every call the cells make into a library or a built-in, in the order made. Attribute
  reads (\<^verbatim>\<open>.shape\<close>, \<^verbatim>\<open>.values\<close>) and slices are not calls.
\<close>

datatype call =
    Sns_load_dataset
  | Df_head
  | Df_dropna
  | Df_loc
  | Series_head
  | Series_unique
  | Py_print
  | Py_help
  | Sk_train_test_split
  | Sk_DecisionTreeClassifier
  | Sk_fit
  | Sk_predict
  | Sk_score
  | Sk_accuracy_score
  | Sk_classification_report
  | Sk_plot_tree
  | Plt_subplots

text \<open>What a cell shows that the properties below are about: the metric values.\<close>

datatype 'v display =
    Out_accuracy pyfloat
  | Out_report "'v option report"
  | Out_model_accuracy pyfloat

text \<open>
  The global namespace: the imported names, and the notebook's variables, \<open>None\<close> while
  unbound. \<open>var_figure\<close> stands for \<^verbatim>\<open>fig, ax\<close> with what was drawn on them.
\<close>

record ('v, 'm, 'r, 'p) env =
  imported :: "string list"
  var_data :: "'v frame option"
  var_feature_columns :: "string list option"
  var_X :: "'v frame option"
  var_y :: "'v series option"
  var_X_train :: "'v frame option"
  var_X_test :: "'v frame option"
  var_y_train :: "'v series option"
  var_y_test :: "'v series option"
  var_model :: "'m option"
  var_y_pred :: "'v option list option"
  var_report :: "'v option report option"
  var_figure :: "'p option"
  rng :: 'r
  calls :: "call list"
  outputs :: "'v display list"

definition empty_env :: "'r \<Rightarrow> ('v, 'm, 'r, 'p) env" where
  "empty_env r =
     \<lparr>imported = [], var_data = None, var_feature_columns = None, var_X = None, var_y = None,
      var_X_train = None, var_X_test = None, var_y_train = None, var_y_test = None,
      var_model = None, var_y_pred = None, var_report = None, var_figure = None,
      rng = r, calls = [], outputs = []\<rparr>"

text \<open>Reading a name that no cell has bound raises \<^verbatim>\<open>NameError\<close>.\<close>

definition get_var :: "string \<Rightarrow> 'a option \<Rightarrow> error + 'a" where
  "get_var name v = (case v of None \<Rightarrow> Inl (NameError name) | Some x \<Rightarrow> Inr x)"

definition need :: "string \<Rightarrow> ('v, 'm, 'r, 'p) env \<Rightarrow> error + unit" where
  "need name s = (if name \<in> set (imported s) then Inr () else Inl (NameError name))"

definition import_names :: "string list \<Rightarrow> ('v, 'm, 'r, 'p) env \<Rightarrow> ('v, 'm, 'r, 'p) env" where
  "import_names ns s = s\<lparr>imported := imported s @ ns\<rparr>"

definition called :: "call list \<Rightarrow> ('v, 'm, 'r, 'p) env \<Rightarrow> ('v, 'm, 'r, 'p) env" where
  "called cs s = s\<lparr>calls := calls s @ cs\<rparr>"

definition shown :: "'v display \<Rightarrow> ('v, 'm, 'r, 'p) env \<Rightarrow> ('v, 'm, 'r, 'p) env" where
  "shown out s = s\<lparr>outputs := outputs s @ [out]\<rparr>"

section \<open>The cells\<close>

text \<open>
  One function per code cell, in the notebook's order. A cell reads names in Python's
  evaluation order, performs its calls, and binds its results. A cell that raises leaves
  no state: the run stops there.
\<close>

definition feature_columns :: "string list" where
  "feature_columns = [''bill_length_mm'', ''bill_depth_mm'', ''flipper_length_mm'', ''body_mass_g'']"

text \<open>\<^verbatim>\<open>import seaborn as sns; import matplotlib.pyplot as plt\<close>\<close>

definition cell01 :: "('v, 'm, 'r, 'p) env \<Rightarrow> error + ('v, 'm, 'r, 'p) env" where
  "cell01 s = Inr (import_names [''sns'', ''plt''] s)"

text \<open>\<^verbatim>\<open>data = sns.load_dataset('penguins'); data.head()\<close>\<close>

definition cell02 ::
  "('v, 'm, 'r, 'p) library \<Rightarrow> ('v, 'm, 'r, 'p) env \<Rightarrow> error + ('v, 'm, 'r, 'p) env" where
  "cell02 L s =
     and_then (need ''sns'' s) (\<lambda>_.
     and_then (lib (load_dataset L ''penguins'')) (\<lambda>d.
       Inr (called [Sns_load_dataset, Df_head] (s\<lparr>var_data := Some d\<rparr>))))"

text \<open>\<^verbatim>\<open>data = data.dropna()\<close>\<close>

definition cell03 :: "('v, 'm, 'r, 'p) env \<Rightarrow> error + ('v, 'm, 'r, 'p) env" where
  "cell03 s =
     and_then (get_var ''data'' (var_data s)) (\<lambda>d.
       Inr (called [Df_dropna] (s\<lparr>var_data := Some (dropna d)\<rparr>)))"

text \<open>
  \<^verbatim>\<open>feature_columns = [...]; X = data.loc[:, feature_columns]; y = data.loc[:, 'species']\<close>
  and two prints of the shapes.
\<close>

definition cell04 :: "('v, 'm, 'r, 'p) env \<Rightarrow> error + ('v, 'm, 'r, 'p) env" where
  "cell04 s =
     and_then (get_var ''data'' (var_data s)) (\<lambda>d.
     and_then (loc_columns d feature_columns) (\<lambda>X.
     and_then (loc_column d ''species'') (\<lambda>y.
       Inr (called [Df_loc, Df_loc, Py_print, Py_print]
              (s\<lparr>var_feature_columns := Some feature_columns, var_X := Some X, var_y := Some y\<rparr>)))))"

text \<open>\<^verbatim>\<open>X.head()\<close>\<close>

definition cell05 :: "('v, 'm, 'r, 'p) env \<Rightarrow> error + ('v, 'm, 'r, 'p) env" where
  "cell05 s = and_then (get_var ''X'' (var_X s)) (\<lambda>_. Inr (called [Df_head] s))"

text \<open>\<^verbatim>\<open>y.head()\<close>\<close>

definition cell06 :: "('v, 'm, 'r, 'p) env \<Rightarrow> error + ('v, 'm, 'r, 'p) env" where
  "cell06 s = and_then (get_var ''y'' (var_y s)) (\<lambda>_. Inr (called [Series_head] s))"

text \<open>
  \<^verbatim>\<open>X_train, X_test, y_train, y_test = train_test_split(X, y, test_size = 0.3)\<close>
  and four prints of the shapes.
\<close>

definition cell07 ::
  "('v, 'm, 'r, 'p) library \<Rightarrow> ('v, 'm, 'r, 'p) env \<Rightarrow> error + ('v, 'm, 'r, 'p) env" where
  "cell07 L s0 =
     (let s = import_names [''train_test_split''] s0 in
      and_then (get_var ''X'' (var_X s)) (\<lambda>X.
      and_then (get_var ''y'' (var_y s)) (\<lambda>y.
        let (perm, r) = rng_permutation L (rng s) (length (rows X)) in
        and_then (train_test_split X y (3 / 10) perm) (\<lambda>(X_train, X_test, y_train, y_test).
          Inr (called [Sk_train_test_split, Py_print, Py_print, Py_print, Py_print]
                 (s\<lparr>var_X_train := Some X_train, var_X_test := Some X_test,
                    var_y_train := Some y_train, var_y_test := Some y_test, rng := r\<rparr>))))))"

text \<open>\<^verbatim>\<open>y_test.values\<close>\<close>

definition cell08 :: "('v, 'm, 'r, 'p) env \<Rightarrow> error + ('v, 'm, 'r, 'p) env" where
  "cell08 s = and_then (get_var ''y_test'' (var_y_test s)) (\<lambda>_. Inr s)"

text \<open>\<^verbatim>\<open>from sklearn.tree import DecisionTreeClassifier\<close>\<close>

definition cell09 :: "('v, 'm, 'r, 'p) env \<Rightarrow> error + ('v, 'm, 'r, 'p) env" where
  "cell09 s = Inr (import_names [''DecisionTreeClassifier''] s)"

text \<open>\<^verbatim>\<open>help(DecisionTreeClassifier)\<close>\<close>

definition cell10 :: "('v, 'm, 'r, 'p) env \<Rightarrow> error + ('v, 'm, 'r, 'p) env" where
  "cell10 s = and_then (need ''DecisionTreeClassifier'' s) (\<lambda>_. Inr (called [Py_help] s))"

text \<open>\<^verbatim>\<open>model = DecisionTreeClassifier(max_depth=2)\<close>\<close>

definition cell11 ::
  "('v, 'm, 'r, 'p) library \<Rightarrow> ('v, 'm, 'r, 'p) env \<Rightarrow> error + ('v, 'm, 'r, 'p) env" where
  "cell11 L s =
     and_then (need ''DecisionTreeClassifier'' s) (\<lambda>_.
       Inr (called [Sk_DecisionTreeClassifier] (s\<lparr>var_model := Some (DecisionTreeClassifier L 2)\<rparr>)))"

text \<open>\<^verbatim>\<open>model.fit(X_train, y_train)\<close>: the classifier object is fitted in place.\<close>

definition cell12 ::
  "('v, 'm, 'r, 'p) library \<Rightarrow> ('v, 'm, 'r, 'p) env \<Rightarrow> error + ('v, 'm, 'r, 'p) env" where
  "cell12 L s =
     and_then (get_var ''model'' (var_model s)) (\<lambda>m.
     and_then (get_var ''X_train'' (var_X_train s)) (\<lambda>X_train.
     and_then (get_var ''y_train'' (var_y_train s)) (\<lambda>y_train.
     and_then (lib (fit L (rng s) m X_train y_train)) (\<lambda>(m', r).
       Inr (called [Sk_fit] (s\<lparr>var_model := Some m', rng := r\<rparr>))))))"

text \<open>\<^verbatim>\<open>y_pred = model.predict(X_test); y_pred[0:10]\<close>\<close>

definition cell13 ::
  "('v, 'm, 'r, 'p) library \<Rightarrow> ('v, 'm, 'r, 'p) env \<Rightarrow> error + ('v, 'm, 'r, 'p) env" where
  "cell13 L s =
     and_then (get_var ''model'' (var_model s)) (\<lambda>m.
     and_then (get_var ''X_test'' (var_X_test s)) (\<lambda>X_test.
     and_then (lib (predict L m X_test)) (\<lambda>y_pred.
       Inr (called [Sk_predict] (s\<lparr>var_y_pred := Some y_pred\<rparr>)))))"

text \<open>\<^verbatim>\<open>y_test[0:10].values\<close>\<close>

definition cell14 :: "('v, 'm, 'r, 'p) env \<Rightarrow> error + ('v, 'm, 'r, 'p) env" where
  "cell14 s = and_then (get_var ''y_test'' (var_y_test s)) (\<lambda>_. Inr s)"

text \<open>\<^verbatim>\<open>accuracy_score(y_pred, y_test)\<close>: the predictions are passed first.\<close>

definition cell15 :: "('v, 'm, 'r, 'p) env \<Rightarrow> error + ('v, 'm, 'r, 'p) env" where
  "cell15 s0 =
     (let s = import_names [''accuracy_score''] s0 in
      and_then (get_var ''y_pred'' (var_y_pred s)) (\<lambda>y_pred.
      and_then (get_var ''y_test'' (var_y_test s)) (\<lambda>y_test.
      and_then (accuracy_score y_pred (values_of y_test)) (\<lambda>a.
        Inr (called [Sk_accuracy_score] (shown (Out_accuracy a) s))))))"

text \<open>\<^verbatim>\<open>report = classification_report(y_pred, y_test); print(report)\<close>\<close>

definition cell16 ::
  "(('v::linorder), 'm, 'r, 'p) env \<Rightarrow> error + ('v, 'm, 'r, 'p) env" where
  "cell16 s0 =
     (let s = import_names [''classification_report''] s0 in
      and_then (get_var ''y_pred'' (var_y_pred s)) (\<lambda>y_pred.
      and_then (get_var ''y_test'' (var_y_test s)) (\<lambda>y_test.
      and_then (classification_report y_pred (values_of y_test)) (\<lambda>rep.
        Inr (called [Sk_classification_report, Py_print]
               (shown (Out_report rep) (s\<lparr>var_report := Some rep\<rparr>)))))))"

text \<open>
  \<^verbatim>\<open>fig, ax = plt.subplots(figsize=(14,10))\<close>, then
  \<^verbatim>\<open>plot_tree(model, ax=ax, feature_names = feature_columns, class_names = y.unique())\<close>.
\<close>

definition cell17 ::
  "('v, 'm, 'r, 'p) library \<Rightarrow> ('v, 'm, 'r, 'p) env \<Rightarrow> error + ('v, 'm, 'r, 'p) env" where
  "cell17 L s0 =
     (let s = import_names [''plot_tree''] s0 in
      and_then (need ''plt'' s) (\<lambda>_.
      and_then (get_var ''model'' (var_model s)) (\<lambda>m.
      and_then (get_var ''feature_columns'' (var_feature_columns s)) (\<lambda>fc.
      and_then (get_var ''y'' (var_y s)) (\<lambda>y.
      and_then (lib (plot_tree L m fc (unique (values_of y)))) (\<lambda>fig.
        Inr (called [Plt_subplots, Series_unique, Sk_plot_tree] (s\<lparr>var_figure := Some fig\<rparr>))))))))"

text \<open>
  The imports of \<^verbatim>\<open>RandomForestClassifier\<close>, \<^verbatim>\<open>SVC\<close> and \<^verbatim>\<open>KNeighborsClassifier\<close>;
  every assignment to \<^verbatim>\<open>model\<close> in this cell is commented out.
\<close>

definition cell18 :: "('v, 'm, 'r, 'p) env \<Rightarrow> error + ('v, 'm, 'r, 'p) env" where
  "cell18 s = Inr (import_names [''RandomForestClassifier'', ''SVC'', ''KNeighborsClassifier''] s)"

text \<open>
  \<^verbatim>\<open>model.fit(X_train, y_train); y_pred = model.predict(X_test)\<close>,
  \<^verbatim>\<open>report = classification_report(y_test, y_pred)\<close>, the print of
  \<^verbatim>\<open>model.score(X_test, y_test)\<close> (the accuracy of the model's predictions on
  \<^verbatim>\<open>X_test\<close> against \<^verbatim>\<open>y_test\<close>) and \<^verbatim>\<open>print(report)\<close>.
\<close>

definition cell19 ::
  "(('v::linorder), 'm, 'r, 'p) library \<Rightarrow> ('v, 'm, 'r, 'p) env \<Rightarrow> error + ('v, 'm, 'r, 'p) env" where
  "cell19 L s =
     and_then (get_var ''model'' (var_model s)) (\<lambda>m.
     and_then (get_var ''X_train'' (var_X_train s)) (\<lambda>X_train.
     and_then (get_var ''y_train'' (var_y_train s)) (\<lambda>y_train.
     and_then (lib (fit L (rng s) m X_train y_train)) (\<lambda>(m', r).
     and_then (get_var ''X_test'' (var_X_test s)) (\<lambda>X_test.
     and_then (lib (predict L m' X_test)) (\<lambda>y_pred.
     and_then (need ''classification_report'' s) (\<lambda>_.
     and_then (get_var ''y_test'' (var_y_test s)) (\<lambda>y_test.
     and_then (classification_report (values_of y_test) y_pred) (\<lambda>rep.
     and_then (lib (predict L m' X_test)) (\<lambda>y_again.
     and_then (accuracy_score (values_of y_test) y_again) (\<lambda>a.
       Inr (called [Sk_fit, Sk_predict, Sk_classification_report, Sk_score, Py_print, Py_print]
              (shown (Out_report rep) (shown (Out_model_accuracy a)
                 (s\<lparr>var_model := Some m', rng := r, var_y_pred := Some y_pred,
                    var_report := Some rep\<rparr>)))))))))))))))"

text \<open>Running cells one after another; the first exception ends the run.\<close>

fun run ::
  "(('v, 'm, 'r, 'p) env \<Rightarrow> error + ('v, 'm, 'r, 'p) env) list \<Rightarrow>
     ('v, 'm, 'r, 'p) env \<Rightarrow> error + ('v, 'm, 'r, 'p) env" where
  "run [] s = Inr s"
| "run (c # cs) s = (case c s of Inl e \<Rightarrow> Inl e | Inr s' \<Rightarrow> run cs s')"

definition notebook_cells ::
  "(('v::linorder), 'm, 'r, 'p) library \<Rightarrow>
     (('v, 'm, 'r, 'p) env \<Rightarrow> error + ('v, 'm, 'r, 'p) env) list" where
  "notebook_cells L =
     [cell01, cell02 L, cell03, cell04, cell05, cell06, cell07 L, cell08, cell09, cell10,
      cell11 L, cell12 L, cell13 L, cell14, cell15, cell16, cell17 L, cell18, cell19 L]"

text \<open>The notebook, run top to bottom in a fresh kernel whose random generator is \<open>r\<close>.\<close>

definition notebook ::
  "(('v::linorder), 'm, 'r, 'p) library \<Rightarrow> 'r \<Rightarrow> error + ('v, 'm, 'r, 'p) env" where
  "notebook L r = run (notebook_cells L) (empty_env r)"

section \<open>Stages and call sequence of a full run\<close>

text \<open>The calls of a run of all cells, and the names it imports, in order.\<close>

definition all_calls :: "call list" where
  "all_calls =
     [Sns_load_dataset, Df_head, Df_dropna, Df_loc, Df_loc, Py_print, Py_print, Df_head,
      Series_head, Sk_train_test_split, Py_print, Py_print, Py_print, Py_print, Py_help,
      Sk_DecisionTreeClassifier, Sk_fit, Sk_predict, Sk_accuracy_score,
      Sk_classification_report, Py_print, Plt_subplots, Series_unique, Sk_plot_tree, Sk_fit,
      Sk_predict, Sk_classification_report, Sk_score, Py_print, Py_print]"

definition all_imports :: "string list" where
  "all_imports =
     [''sns'', ''plt'', ''train_test_split'', ''DecisionTreeClassifier'', ''accuracy_score'',
      ''classification_report'', ''plot_tree'', ''RandomForestClassifier'', ''SVC'',
      ''KNeighborsClassifier'']"

text \<open>
  The pipeline stage a call belongs to; display calls, column selection and the
  construction of the unfitted classifier belong to none. The three metric calls
  (\<^verbatim>\<open>accuracy_score\<close>, \<^verbatim>\<open>classification_report\<close>, \<^verbatim>\<open>model.score\<close>) are the
  scoring stage.
\<close>

datatype stage = Load | Clean | Split | Fit | Predict | Score | Plot

fun stage_of :: "call \<Rightarrow> stage option" where
  "stage_of Sns_load_dataset = Some Load"
| "stage_of Df_dropna = Some Clean"
| "stage_of Sk_train_test_split = Some Split"
| "stage_of Sk_fit = Some Fit"
| "stage_of Sk_predict = Some Predict"
| "stage_of Sk_accuracy_score = Some Score"
| "stage_of Sk_classification_report = Some Score"
| "stage_of Sk_score = Some Score"
| "stage_of Sk_plot_tree = Some Plot"
| "stage_of _ = None"

definition stages :: "call list \<Rightarrow> stage list" where
  "stages cs = remdups_adj (List.map_filter stage_of cs)"

text \<open>The library (or the interpreter) that a call goes to.\<close>

datatype provider = Seaborn | Pandas | Sklearn | Matplotlib | Builtin

fun provider_of :: "call \<Rightarrow> provider" where
  "provider_of Sns_load_dataset = Seaborn"
| "provider_of Df_head = Pandas"
| "provider_of Df_dropna = Pandas"
| "provider_of Df_loc = Pandas"
| "provider_of Series_head = Pandas"
| "provider_of Series_unique = Pandas"
| "provider_of Py_print = Builtin"
| "provider_of Py_help = Builtin"
| "provider_of Plt_subplots = Matplotlib"
| "provider_of _ = Sklearn"

text \<open>
  The calls that are the dataset load or go to the machine-learning library.
\<close>

definition dataset_or_ml_call :: "call \<Rightarrow> bool" where
  "dataset_or_ml_call c \<longleftrightarrow> provider_of c = Seaborn \<or> provider_of c = Sklearn"

definition calls_of :: "error + ('v, 'm, 'r, 'p) env \<Rightarrow> call list" where
  "calls_of res = (case res of Inl _ \<Rightarrow> [] | Inr s \<Rightarrow> calls s)"

section \<open>A small instance\<close>

text \<open>
  A five-row table with the dataset's seven columns (measurements in tenths, species,
  island and sex as codes), one row without measurements, and a library around it:
  the shuffle reverses the positions, the classifier predicts the label of its first
  training row.
\<close>

definition toy_frame :: "nat frame" where
  "toy_frame =
     \<lparr>columns = [''species'', ''island'', ''bill_length_mm'', ''bill_depth_mm'',
                 ''flipper_length_mm'', ''body_mass_g'', ''sex''],
      rows = [(0, [Some 0, Some 0, Some 391, Some 187, Some 181, Some 3750, Some 1]),
              (1, [Some 0, Some 0, Some 395, Some 174, Some 186, Some 3800, Some 0]),
              (3, [Some 0, Some 0, None, None, None, None, None]),
              (4, [Some 0, Some 0, Some 367, Some 193, Some 193, Some 3450, Some 0]),
              (220, [Some 2, Some 1, Some 461, Some 132, Some 211, Some 4500, Some 0])]\<rparr>"

definition toy_library :: "(nat, nat option, nat, nat) library" where
  "toy_library =
     \<lparr>load_dataset = (\<lambda>name. if name = ''penguins'' then Inr toy_frame else Inl ''ValueError''),
      rng_permutation = (\<lambda>r n. (rev [0..<n], Suc r)),
      DecisionTreeClassifier = (\<lambda>depth. None),
      fit = (\<lambda>r m X y. Inr (case y of [] \<Rightarrow> None | v # _ \<Rightarrow> snd v, Suc r)),
      predict = (\<lambda>m X. Inr (map (\<lambda>_. m) (rows X))),
      plot_tree = (\<lambda>m fc cn. Inr (length cn))\<rparr>"

text \<open>The values a run of the notebook on this instance goes through.\<close>

definition toy_X :: "nat frame" where
  "toy_X = \<lparr>columns = feature_columns,
            rows = [(0, [Some 391, Some 187, Some 181, Some 3750]),
                    (1, [Some 395, Some 174, Some 186, Some 3800]),
                    (4, [Some 367, Some 193, Some 193, Some 3450]),
                    (220, [Some 461, Some 132, Some 211, Some 4500])]\<rparr>"

definition toy_y :: "nat series" where
  "toy_y = [(0, Some 0), (1, Some 0), (4, Some 0), (220, Some 2)]"

definition toy_X_train :: "nat frame" where
  "toy_X_train = \<lparr>columns = feature_columns,
                  rows = [(1, [Some 395, Some 174, Some 186, Some 3800]),
                          (0, [Some 391, Some 187, Some 181, Some 3750])]\<rparr>"

definition toy_X_test :: "nat frame" where
  "toy_X_test = \<lparr>columns = feature_columns,
                 rows = [(220, [Some 461, Some 132, Some 211, Some 4500]),
                         (4, [Some 367, Some 193, Some 193, Some 3450])]\<rparr>"

definition toy_y_train :: "nat series" where
  "toy_y_train = [(1, Some 0), (0, Some 0)]"

definition toy_y_test :: "nat series" where
  "toy_y_test = [(220, Some 2), (4, Some 0)]"

definition toy_report1 :: "nat option report" where
  "toy_report1 =
     \<lparr>per_class = [(Some 0, \<lparr>precision = 1, recall = 1 / 2, f1_score = 2 / 3, support = 2\<rparr>),
                   (Some 2, \<lparr>precision = 0, recall = 0, f1_score = 0, support = 0\<rparr>)],
      accuracy = Finite (1 / 2)\<rparr>"

definition toy_report2 :: "nat option report" where
  "toy_report2 =
     \<lparr>per_class = [(Some 0, \<lparr>precision = 1 / 2, recall = 1, f1_score = 2 / 3, support = 1\<rparr>),
                   (Some 2, \<lparr>precision = 0, recall = 0, f1_score = 0, support = 1\<rparr>)],
      accuracy = Finite (1 / 2)\<rparr>"

definition toy_result :: "(nat, nat option, nat, nat) env" where
  "toy_result =
     \<lparr>imported = all_imports, var_data = Some (dropna toy_frame),
      var_feature_columns = Some feature_columns, var_X = Some toy_X, var_y = Some toy_y,
      var_X_train = Some toy_X_train, var_X_test = Some toy_X_test,
      var_y_train = Some toy_y_train, var_y_test = Some toy_y_test,
      var_model = Some (Some 0), var_y_pred = Some [Some 0, Some 0],
      var_report = Some toy_report2, var_figure = Some 2, rng = 3, calls = all_calls,
      outputs = [Out_accuracy (Finite (1 / 2)), Out_report toy_report1,
                 Out_model_accuracy (Finite (1 / 2)), Out_report toy_report2]\<rparr>"

text \<open>A table with a single complete row, already reduced to the four features.\<close>

definition one_row_X :: "nat frame" where
  "one_row_X = \<lparr>columns = feature_columns,
                rows = [(0, [Some 391, Some 187, Some 181, Some 3750])]\<rparr>"

definition one_row_y :: "nat series" where
  "one_row_y = [(0, Some 0)]"

text \<open>The calls each cell makes when it returns, cell by cell.\<close>

definition cell_calls :: "call list list" where
  "cell_calls =
     [[], [Sns_load_dataset, Df_head], [Df_dropna], [Df_loc, Df_loc, Py_print, Py_print],
      [Df_head], [Series_head],
      [Sk_train_test_split, Py_print, Py_print, Py_print, Py_print], [], [], [Py_help],
      [Sk_DecisionTreeClassifier], [Sk_fit], [Sk_predict], [], [Sk_accuracy_score],
      [Sk_classification_report, Py_print], [Plt_subplots, Series_unique, Sk_plot_tree], [],
      [Sk_fit, Sk_predict, Sk_classification_report, Sk_score, Py_print, Py_print]]"

text \<open>The same library without a network: loading the dataset raises.\<close>

definition offline_library :: "(nat, nat option, nat, nat) library" where
  "offline_library = toy_library\<lparr>load_dataset := \<lambda>name. Inl ''URLError''\<rparr>"

text \<open>A cell that, when it returns, has added exactly the calls \<open>cs\<close> to the log.\<close>

definition appends :: "(('v, 'm, 'r, 'p) env \<Rightarrow> error + ('v, 'm, 'r, 'p) env) \<Rightarrow> call list \<Rightarrow> bool" where
  "appends c cs \<longleftrightarrow> (\<forall>s s'. c s = Inr s' \<longrightarrow> calls s' = calls s @ cs)"

section \<open>Sequencing lemmas\<close>

lemma and_then_Inr: "and_then m f = Inr y \<longleftrightarrow> (\<exists>x. m = Inr x \<and> f x = Inr y)"
  by (cases m) (simp_all add: and_then_def)

lemma and_then_Inl: "and_then m f = Inl e \<longleftrightarrow> m = Inl e \<or> (\<exists>x. m = Inr x \<and> f x = Inl e)"
  by (cases m) (simp_all add: and_then_def)

lemma and_then_assoc: "and_then (and_then m f) g = and_then m (\<lambda>x. and_then (f x) g)"
  by (cases m) (simp_all add: and_then_def)

lemma and_then_Inr_left: "and_then (Inr x) f = f x"
  by (simp add: and_then_def)

lemma and_then_Inl_left: "and_then (Inl e) f = Inl e"
  by (simp add: and_then_def)

lemma and_then_twice:
  "and_then m (\<lambda>x. and_then (g x) (\<lambda>y. and_then m (\<lambda>z. h x y z)))
     = and_then m (\<lambda>x. and_then (g x) (\<lambda>y. h x y x))"
  by (cases m) (simp_all add: and_then_def)

lemma and_then_InrE:
  assumes "and_then m f = Inr y"
  obtains x where "m = Inr x" and "f x = Inr y"
  using assms by (auto simp: and_then_Inr)

lemma get_var_Some: "get_var n (Some x) = Inr x"
  by (simp add: get_var_def)

lemma lib_Inr: "lib r = Inr x \<longleftrightarrow> r = Inr x"
  by (cases r) (simp_all add: lib_def)

lemma lib_Inl: "lib r = Inl e \<longleftrightarrow> (\<exists>x. r = Inl x \<and> e = LibraryError x)"
  by (cases r) (auto simp: lib_def)

lemma run_Cons: "run (c # cs) = (\<lambda>s. and_then (c s) (run cs))"
  by (rule ext) (simp add: and_then_def)

lemma run_Nil: "run [] = Inr"
  by (rule ext) simp

lemma run_append: "run (cs @ ds) s = and_then (run cs s) (run ds)"
  by (induction cs arbitrary: s) (simp_all add: and_then_def split: sum.splits)

lemmas cell_defs = cell01_def cell02_def cell03_def cell04_def cell05_def cell06_def cell07_def
  cell08_def cell09_def cell10_def cell11_def cell12_def cell13_def cell14_def cell15_def
  cell16_def cell17_def cell18_def cell19_def

text \<open>
  The whole notebook is one chain of its library calls: nothing is caught, and every name
  a cell reads has been bound by the time the cell runs. (\<^verbatim>\<open>model.score\<close> predicts
  on \<^verbatim>\<open>X_test\<close> once more, with the same result.)
\<close>

lemma notebook_chain:
  "notebook L r0 =
     and_then (lib (load_dataset L ''penguins'')) (\<lambda>d.
     and_then (loc_columns (dropna d) feature_columns) (\<lambda>X.
     and_then (loc_column (dropna d) ''species'') (\<lambda>y.
     and_then (train_test_split X y (3 / 10) (fst (rng_permutation L r0 (length (rows X)))))
       (\<lambda>(X_train, X_test, y_train, y_test).
     and_then (lib (fit L (snd (rng_permutation L r0 (length (rows X))))
                      (DecisionTreeClassifier L 2) X_train y_train)) (\<lambda>(m1, r1).
     and_then (lib (predict L m1 X_test)) (\<lambda>y_pred1.
     and_then (accuracy_score y_pred1 (values_of y_test)) (\<lambda>a1.
     and_then (classification_report y_pred1 (values_of y_test)) (\<lambda>rep1.
     and_then (lib (plot_tree L m1 feature_columns (unique (values_of y)))) (\<lambda>fig.
     and_then (lib (fit L r1 m1 X_train y_train)) (\<lambda>(m2, r2).
     and_then (lib (predict L m2 X_test)) (\<lambda>y_pred2.
     and_then (classification_report (values_of y_test) y_pred2) (\<lambda>rep2.
     and_then (accuracy_score (values_of y_test) y_pred2) (\<lambda>a2.
       Inr \<lparr>imported = all_imports, var_data = Some (dropna d),
            var_feature_columns = Some feature_columns, var_X = Some X, var_y = Some y,
            var_X_train = Some X_train, var_X_test = Some X_test,
            var_y_train = Some y_train, var_y_test = Some y_test,
            var_model = Some m2, var_y_pred = Some y_pred2, var_report = Some rep2,
            var_figure = Some fig, rng = r2, calls = all_calls,
            outputs = [Out_accuracy a1, Out_report rep1, Out_model_accuracy a2,
                       Out_report rep2]\<rparr>)))))))))))))"
  apply (simp only: notebook_def notebook_cells_def run_Cons run_Nil)
  apply (simp add: cell_defs and_then_assoc and_then_Inr_left get_var_Some need_def
      import_names_def called_def shown_def empty_env_def Let_def split_def all_calls_def
      all_imports_def and_then_twice)
  done

section \<open>Metrics\<close>

lemma correct_commute: "correct a b = correct b a"
proof -
  have "zip b a = map (\<lambda>(x, y). (y, x)) (zip a b)"
    by (rule zip_commute)
  then show ?thesis
    by (simp add: correct_def filter_map o_def case_prod_unfold eq_commute)
qed

lemma correct_card:
  assumes "length a = length b"
  shows "correct a b = card {i. i < length a \<and> a ! i = b ! i}"
proof -
  have "{i. i < length (zip a b) \<and> (case zip a b ! i of (t, p) \<Rightarrow> t = p)}
        = {i. i < length a \<and> a ! i = b ! i}"
    using assms by auto
  then show ?thesis
    by (simp add: correct_def length_filter_conv_card)
qed

lemma true_positives_commute: "true_positives c a b = true_positives c b a"
proof -
  have "zip b a = map (\<lambda>(x, y). (y, x)) (zip a b)"
    by (rule zip_commute)
  then show ?thesis
    by (simp add: true_positives_def filter_map o_def case_prod_unfold conj_commute)
qed

lemma precision_recall_swap: "precision_of c a b = recall_of c b a"
  by (simp add: precision_of_def recall_of_def true_positives_commute [of c a b])

lemma f1_of_commute: "f1_of p r = f1_of r p"
  by (simp add: f1_of_def add.commute mult.commute mult.left_commute)

lemma labels_commute: "sort (remdups (a @ b)) = sort (remdups (b @ a))"
  by (rule sorted_distinct_set_unique) (auto simp: Un_commute)

text \<open>
  C9. For label sequences of equal length, \<^verbatim>\<open>accuracy_score\<close> gives the same result
  with its two arguments exchanged, and for non-empty ones that result is the number of
  positions where the two agree divided by the length; so the notebook's
  \<^verbatim>\<open>accuracy_score(y_pred, y_test)\<close> is the value of \<^verbatim>\<open>accuracy_score(y_test, y_pred)\<close>.
\<close>

theorem accuracy_score_symmetric:
  assumes "length a = length b"
  shows "accuracy_score a b = accuracy_score b a
       \<and> (a \<noteq> [] \<longrightarrow>
            accuracy_score a b =
              Inr (Finite (of_nat (card {i. i < length a \<and> a ! i = b ! i}) / of_nat (length a))))"
proof
  show "accuracy_score a b = accuracy_score b a"
    using assms by (simp add: accuracy_score_def correct_commute [of a b])
next
  show "a \<noteq> [] \<longrightarrow>
          accuracy_score a b =
            Inr (Finite (of_nat (card {i. i < length a \<and> a ! i = b ! i}) / of_nat (length a)))"
    using assms by (auto simp: accuracy_score_def true_div_def correct_card)
qed

theorem accuracy_score_symmetric_witness:
  "length [Some (0::nat), Some 0] = length [Some 2, Some (0::nat)]
   \<and> accuracy_score [Some (0::nat), Some 0] [Some 2, Some 0]
       = accuracy_score [Some (2::nat), Some 0] [Some 0, Some 0]
   \<and> accuracy_score [Some (0::nat), Some 0] [Some 2, Some 0]
       = Inr (Finite (1 / 2))"
proof -
  have len: "length [Some (0::nat), Some 0] = length [Some 2, Some (0::nat)]"
    by simp
  have val: "accuracy_score [Some (0::nat), Some 0] [Some 2, Some 0]
               = Inr (Finite (1 / 2))"
    by (simp add: accuracy_score_def true_div_def correct_def)
  from accuracy_score_symmetric [OF len] len val show ?thesis
    by simp
qed

section \<open>The split\<close>

lemma n_test_of_three_tenths: "n_test_of (3 / 10) n = (3 * n + 9) div 10"
proof -
  have "(3 / 10 :: rat) * of_nat n = of_int (3 * int n) / of_int 10"
    by simp
  then have "\<lceil>(3 / 10 :: rat) * of_nat n\<rceil> = - (- (3 * int n) div 10)"
    by (simp only: ceiling_divide_eq_div)
  also have "\<dots> = int ((3 * n + 9) div 10)"
    by (simp add: zdiv_int)
  finally show ?thesis
    by (simp add: n_test_of_def)
qed

lemma n_test_lt: "2 \<le> n \<Longrightarrow> n_test_of (3 / 10) n < n"
  by (simp add: n_test_of_three_tenths)

lemma n_test_ge: "n \<le> 1 \<Longrightarrow> n \<le> n_test_of (3 / 10) n"
  by (simp add: n_test_of_three_tenths)

lemma n_test_pos: "1 \<le> n \<Longrightarrow> 1 \<le> n_test_of (3 / 10) n"
  by (simp add: n_test_of_three_tenths)

lemma take_rows_in_range:
  assumes "set idx \<subseteq> {0..<length xs}"
  shows "take_rows xs idx = Inr (map (nth xs) idx)"
  using assms by (auto simp: take_rows_def list_all_iff)

lemma perm_facts:
  assumes "mset perm = mset [0..<n]"
  shows "length perm = n" and "set perm = {0..<n}" and "distinct perm"
proof -
  show "length perm = n"
    using assms by (metis length_upt mset_eq_length minus_nat.diff_0)
  show "set perm = {0..<n}"
    using assms by (metis mset_eq_setD set_upt)
  show "distinct perm"
    using assms by (metis distinct_upt mset_eq_imp_distinct_iff)
qed

lemma train_test_split_three_tenths:
  assumes len: "length y = length (rows X)"
    and n2: "2 \<le> length (rows X)"
    and perm: "mset perm = mset [0..<length (rows X)]"
  shows "train_test_split X y (3 / 10) perm =
           Inr (X\<lparr>rows := map (nth (rows X)) (drop (n_test_of (3 / 10) (length (rows X))) perm)\<rparr>,
                X\<lparr>rows := map (nth (rows X)) (take (n_test_of (3 / 10) (length (rows X))) perm)\<rparr>,
                map (nth y) (drop (n_test_of (3 / 10) (length (rows X))) perm),
                map (nth y) (take (n_test_of (3 / 10) (length (rows X))) perm))"
proof -
  let ?n = "length (rows X)"
  let ?k = "n_test_of (3 / 10) ?n"
  have lp: "length perm = ?n" and sp: "set perm = {0..<?n}"
    using perm_facts [OF perm] by simp_all
  have k: "?k < ?n"
    using n2 by (rule n_test_lt)
  have tk: "take (?n - ?k) (drop ?k perm) = drop ?k perm"
    using lp by simp
  have in_take: "set (take ?k perm) \<subseteq> {0..<?n}"
    using sp set_take_subset [of ?k perm] by blast
  have in_drop: "set (drop ?k perm) \<subseteq> {0..<?n}"
    using sp set_drop_subset [of ?k perm] by blast
  have in_take_y: "set (take ?k perm) \<subseteq> {0..<length y}"
    using in_take len by simp
  have in_drop_y: "set (drop ?k perm) \<subseteq> {0..<length y}"
    using in_drop len by simp
  show ?thesis
    using k len
    by (simp add: train_test_split_def Let_def tk and_then_Inr_left
        take_rows_in_range [OF in_take] take_rows_in_range [OF in_drop]
        take_rows_in_range [OF in_take_y] take_rows_in_range [OF in_drop_y])
qed

lemma train_test_split_too_small:
  assumes "length (rows X) \<le> 1"
  shows "train_test_split X y (3 / 10) perm = Inl ValueError"
  using n_test_ge [OF assms] by (simp add: train_test_split_def Let_def)




lemma toy_positions: "[0..<4] = [0, 1, 2, 3]"
  by (simp add: upt_rec)

lemma toy_shuffle: "mset [3, 2, 1, 0] = mset [0..<4]"
proof -
  have "[3, 2, 1, 0] = rev [0..<4]"
    by (simp add: toy_positions)
  then show ?thesis
    by (simp only: mset_rev)
qed

lemma toy_split:
  "train_test_split toy_X toy_y (3 / 10) [3, 2, 1, 0] =
   Inr (toy_X_train, toy_X_test, toy_y_train, toy_y_test)"
  by (simp add: train_test_split_def n_test_of_three_tenths toy_X_def toy_y_def Let_def
      take_rows_def and_then_def toy_X_train_def toy_X_test_def toy_y_train_def toy_y_test_def)



text \<open>
  C5 as stated fails on a table with one row: the single row would go to the test part,
  the training part would be empty, and the call raises \<^verbatim>\<open>ValueError\<close> instead of
  allocating anything.
\<close>

theorem test_size_single_row_counterexample:
  "length one_row_y = length (rows one_row_X) \<and> length (rows one_row_X) = 1
   \<and> mset [0] = mset [0..<length (rows one_row_X)]
   \<and> train_test_split one_row_X one_row_y (3 / 10) [0] = Inl ValueError"
  by (simp add: one_row_X_def one_row_y_def train_test_split_def n_test_of_three_tenths Let_def)

text \<open>
  C5, amended. With \<open>n \<ge> 2\<close> rows, \<^verbatim>\<open>train_test_split(X, y, test_size = 0.3)\<close> puts
  \<open>ceil(0.3 * n)\<close> rows in the test part and the other \<open>n - ceil(0.3 * n)\<close> in the
  training part, both non-empty; with \<open>n \<le> 1\<close> rows it raises \<^verbatim>\<open>ValueError\<close>.
\<close>

theorem test_size_three_tenths:
  "(length y = length (rows X) \<and> 2 \<le> length (rows X) \<and> mset perm = mset [0..<length (rows X)]
      \<longrightarrow> (\<exists>X_train X_test y_train y_test.
             train_test_split X y (3 / 10) perm = Inr (X_train, X_test, y_train, y_test)
           \<and> length (rows X_test) = nat \<lceil>(3 / 10 :: rat) * of_nat (length (rows X))\<rceil>
           \<and> length y_test = length (rows X_test)
           \<and> length (rows X_train)
               = length (rows X) - nat \<lceil>(3 / 10 :: rat) * of_nat (length (rows X))\<rceil>
           \<and> length y_train = length (rows X_train)
           \<and> 1 \<le> length (rows X_train) \<and> 1 \<le> length (rows X_test)))
   \<and> (length (rows X') \<le> 1 \<longrightarrow> train_test_split X' y' (3 / 10) perm' = Inl ValueError)"
proof (intro conjI impI)
  assume h: "length y = length (rows X) \<and> 2 \<le> length (rows X)
               \<and> mset perm = mset [0..<length (rows X)]"
  let ?n = "length (rows X)"
  let ?k = "n_test_of (3 / 10) ?n"
  have lp: "length perm = ?n"
    using h perm_facts(1) by blast
  have k: "?k < ?n"
    using h by (simp add: n_test_lt)
  have "1 \<le> ?n"
    using h by simp
  then have k1: "1 \<le> ?k"
    by (rule n_test_pos)
  have c: "nat \<lceil>(3 / 10 :: rat) * of_nat ?n\<rceil> = ?k"
    by (simp add: n_test_of_def)
  have eq: "train_test_split X y (3 / 10) perm =
          Inr (X\<lparr>rows := map (nth (rows X)) (drop ?k perm)\<rparr>,
               X\<lparr>rows := map (nth (rows X)) (take ?k perm)\<rparr>,
               map (nth y) (drop ?k perm), map (nth y) (take ?k perm))"
    using h by (simp add: train_test_split_three_tenths)
  show "\<exists>X_train X_test y_train y_test.
             train_test_split X y (3 / 10) perm = Inr (X_train, X_test, y_train, y_test)
           \<and> length (rows X_test) = nat \<lceil>(3 / 10 :: rat) * of_nat (length (rows X))\<rceil>
           \<and> length y_test = length (rows X_test)
           \<and> length (rows X_train)
               = length (rows X) - nat \<lceil>(3 / 10 :: rat) * of_nat (length (rows X))\<rceil>
           \<and> length y_train = length (rows X_train)
           \<and> 1 \<le> length (rows X_train) \<and> 1 \<le> length (rows X_test)"
    unfolding c
    apply (intro exI conjI)
          apply (rule eq)
    using lp k k1 apply simp_all
    done
next
  assume "length (rows X') \<le> 1"
  then show "train_test_split X' y' (3 / 10) perm' = Inl ValueError"
    by (rule train_test_split_too_small)
qed

theorem test_size_three_tenths_witness:
  "(length toy_y = length (rows toy_X) \<and> 2 \<le> length (rows toy_X)
      \<and> mset [3, 2, 1, 0] = mset [0..<length (rows toy_X)])
   \<and> train_test_split toy_X toy_y (3 / 10) [3, 2, 1, 0]
        = Inr (toy_X_train, toy_X_test, toy_y_train, toy_y_test)
   \<and> length (rows toy_X_test) = nat \<lceil>(3 / 10 :: rat) * of_nat (length (rows toy_X))\<rceil>
   \<and> length (rows toy_X_train)
        = length (rows toy_X) - nat \<lceil>(3 / 10 :: rat) * of_nat (length (rows toy_X))\<rceil>
   \<and> length (rows toy_X_test) = 2 \<and> length (rows toy_X_train) = 2
   \<and> length (rows one_row_X) \<le> 1
   \<and> train_test_split one_row_X one_row_y (3 / 10) [0] = Inl ValueError"
proof -
  have len: "length (rows toy_X) = 4"
    by (simp add: toy_X_def)
  have h: "length toy_y = length (rows toy_X) \<and> 2 \<le> length (rows toy_X)
             \<and> mset [3, 2, 1, 0] = mset [0..<length (rows toy_X)]"
    unfolding len using toy_shuffle by (simp add: toy_y_def)
  have h': "length (rows one_row_X) \<le> 1"
    by (simp add: one_row_X_def)
  have t: "(h \<longrightarrow> (\<exists>X_train X_test y_train y_test.
             train_test_split toy_X toy_y (3 / 10) [3, 2, 1, 0]
               = Inr (X_train, X_test, y_train, y_test)
           \<and> length (rows X_test) = nat \<lceil>(3 / 10 :: rat) * of_nat (length (rows toy_X))\<rceil>
           \<and> length y_test = length (rows X_test)
           \<and> length (rows X_train)
               = length (rows toy_X) - nat \<lceil>(3 / 10 :: rat) * of_nat (length (rows toy_X))\<rceil>
           \<and> length y_train = length (rows X_train)
           \<and> 1 \<le> length (rows X_train) \<and> 1 \<le> length (rows X_test)))
         \<and> (h' \<longrightarrow> train_test_split one_row_X one_row_y (3 / 10) [0]
              = Inl ValueError)"
    if "h = (length toy_y = length (rows toy_X) \<and> 2 \<le> length (rows toy_X)
             \<and> mset [3, 2, 1, 0] = mset [0..<length (rows toy_X)])"
      and "h' = (length (rows one_row_X) \<le> 1)" for h h'
    unfolding that by (rule test_size_three_tenths)
  from t [OF refl refl] h h'
  have a: "\<exists>X_train X_test y_train y_test.
             train_test_split toy_X toy_y (3 / 10) [3, 2, 1, 0]
               = Inr (X_train, X_test, y_train, y_test)
           \<and> length (rows X_test) = nat \<lceil>(3 / 10 :: rat) * of_nat (length (rows toy_X))\<rceil>
           \<and> length y_test = length (rows X_test)
           \<and> length (rows X_train)
               = length (rows toy_X) - nat \<lceil>(3 / 10 :: rat) * of_nat (length (rows toy_X))\<rceil>
           \<and> length y_train = length (rows X_train)
           \<and> 1 \<le> length (rows X_train) \<and> 1 \<le> length (rows X_test)"
    and b: "train_test_split one_row_X one_row_y (3 / 10) [0]
              = Inl ValueError"
    by blast+
  from a have c: "length (rows toy_X_test) = nat \<lceil>(3 / 10 :: rat) * of_nat (length (rows toy_X))\<rceil>"
    "length (rows toy_X_train)
        = length (rows toy_X) - nat \<lceil>(3 / 10 :: rat) * of_nat (length (rows toy_X))\<rceil>"
    unfolding toy_split by auto
  have d: "length (rows toy_X_test) = 2" "length (rows toy_X_train) = 2"
    by (simp_all add: toy_X_test_def toy_X_train_def)
  have ts: "train_test_split toy_X toy_y (3 / 10) [3, 2, 1, 0]
             = Inr (toy_X_train, toy_X_test, toy_y_train, toy_y_test)"
    by (rule toy_split)
  from h h' b c d ts show ?thesis
    by blast
qed

section \<open>Tables\<close>

lemma complete_row_iff: "complete_row r \<longleftrightarrow> None \<notin> set (snd r)"
  unfolding complete_row_def list_all_iff by metis

lemma dropna_rows: "rows (dropna df) = filter (\<lambda>r. None \<notin> set (snd r)) (rows df)"
  by (simp add: dropna_def complete_row_iff [abs_def])

lemma dropna_columns: "columns (dropna df) = columns df"
  by (simp add: dropna_def)

lemma toy_dropna:
  "dropna toy_frame =
     \<lparr>columns = [''species'', ''island'', ''bill_length_mm'', ''bill_depth_mm'',
                 ''flipper_length_mm'', ''body_mass_g'', ''sex''],
      rows = [(0, [Some 0, Some 0, Some 391, Some 187, Some 181, Some 3750, Some 1]),
              (1, [Some 0, Some 0, Some 395, Some 174, Some 186, Some 3800, Some 0]),
              (4, [Some 0, Some 0, Some 367, Some 193, Some 193, Some 3450, Some 0]),
              (220, [Some 2, Some 1, Some 461, Some 132, Some 211, Some 4500, Some 0])]\<rparr>"
  by (simp add: dropna_def toy_frame_def complete_row_def)

lemma toy_loc_columns:
  "loc_columns (dropna toy_frame) feature_columns = Inr toy_X"
  unfolding toy_dropna
  by (simp add: loc_columns_def feature_columns_def toy_X_def cell_at_def)

lemma toy_loc_column:
  "loc_column (dropna toy_frame) ''species'' = Inr toy_y"
  unfolding toy_dropna
  by (simp add: loc_column_def cell_at_def toy_y_def)

lemma toy_report1:
  "classification_report [Some 0, Some 0] [Some 2, Some (0::nat)]
     = Inr toy_report1"
  by (simp add: classification_report_def class_line_def precision_of_def recall_of_def
      f1_of_def ratio0_def true_positives_def true_div_def correct_def toy_report1_def)

lemma toy_report2:
  "classification_report [Some 2, Some (0::nat)] [Some 0, Some 0]
     = Inr toy_report2"
  by (simp add: classification_report_def class_line_def precision_of_def recall_of_def
      f1_of_def ratio0_def true_positives_def true_div_def correct_def toy_report2_def)

lemma toy_accuracy:
  "accuracy_score [Some 0, Some 0] [Some 2, Some (0::nat)] = Inr (Finite (1 / 2))"
  "accuracy_score [Some 2, Some (0::nat)] [Some 0, Some 0] = Inr (Finite (1 / 2))"
  by (simp_all add: accuracy_score_def true_div_def correct_def)

lemma toy_rev: "rev [0..<4] = [3, 2, 1, 0]"
  by (simp add: toy_positions)

lemma toy_rows: "length (rows toy_X) = 4" "rows toy_X_test = [(220, [Some 461, Some 132, Some 211, Some 4500]),
                         (4, [Some 367, Some 193, Some 193, Some 3450])]"
  by (simp_all add: toy_X_def toy_X_test_def)

lemma toy_values: "values_of toy_y_test = [Some 2, Some 0]" "toy_y_train = [(1, Some 0), (0, Some 0)]"
  "unique (values_of toy_y) = [Some 0, Some 2]"
  by (simp_all add: values_of_def toy_y_test_def toy_y_train_def toy_y_def unique_def)

lemma toy_notebook: "notebook toy_library 0 = Inr toy_result"
  apply (simp only: notebook_chain)
  apply (simp only: toy_library_def library.simps simp_thms if_True lib_def sum.case and_then_Inr_left
      toy_loc_columns toy_loc_column toy_rows fst_conv snd_conv toy_rev toy_split prod.case)
  apply (simp only: toy_values list.case snd_conv toy_rows list.map toy_accuracy toy_report1 toy_report2 and_then_Inr_left)
  apply (simp add: toy_result_def toy_y_train_def)
  done

lemma column_position_less: "c \<in> set cols \<Longrightarrow> column_position c cols < length cols"
  by (induction cols) auto

lemma column_position_nth: "c \<in> set cols \<Longrightarrow> cols ! column_position c cols = c"
  by (induction cols) auto

lemma loc_columns_present:
  assumes "set cols \<subseteq> set (columns df)"
  shows "loc_columns df cols =
           Inr \<lparr>columns = cols,
                rows = map (\<lambda>r. (fst r, map (\<lambda>c. cell_at (snd r) (column_position c (columns df))) cols))
                           (rows df)\<rparr>"
proof -
  have "filter (\<lambda>c. c \<notin> set (columns df)) cols = []"
    using assms by (auto simp: filter_empty_conv)
  then show ?thesis
    by (simp add: loc_columns_def)
qed

lemma loc_columns_Inr:
  assumes "loc_columns df cols = Inr X"
  shows "set cols \<subseteq> set (columns df)"
    and "X = \<lparr>columns = cols,
              rows = map (\<lambda>r. (fst r, map (\<lambda>c. cell_at (snd r) (column_position c (columns df))) cols))
                         (rows df)\<rparr>"
  using assms by (auto simp: loc_columns_def filter_empty_conv split: list.splits)

lemma loc_column_Inr:
  assumes "loc_column df c = Inr y"
  shows "c \<in> set (columns df)"
    and "y = map (\<lambda>r. (fst r, cell_at (snd r) (column_position c (columns df)))) (rows df)"
  using assms by (auto simp: loc_column_def split: if_splits)

lemma loc_columns_cells:
  assumes X: "X = \<lparr>columns = cols,
              rows = map (\<lambda>r. (fst r, map (\<lambda>c. cell_at (snd r) (column_position c (columns df))) cols))
                         (rows df)\<rparr>"
    and i: "i < length (rows df)"
  shows "fst (rows X ! i) = fst (rows df ! i)"
    and "\<forall>c\<in>set cols. cell X i c = cell df i c"
proof -
  show "fst (rows X ! i) = fst (rows df ! i)"
    using i by (simp add: X)
  show "\<forall>c\<in>set cols. cell X i c = cell df i c"
  proof
    fix c assume c: "c \<in> set cols"
    then show "cell X i c = cell df i c"
      using i column_position_less [OF c] column_position_nth [OF c]
      by (simp add: X cell_def cell_at_def)
  qed
qed

lemma loc_column_cells:
  assumes y: "y = map (\<lambda>r. (fst r, cell_at (snd r) (column_position c (columns df)))) (rows df)"
    and i: "i < length (rows df)"
  shows "y ! i = (fst (rows df ! i), cell df i c)"
  using i by (simp add: y cell_def)

lemma notebook_InrE:
  assumes "notebook L r0 = Inr s"
  obtains d X y X_train X_test y_train y_test m1 r1 y_pred1 a1 rep1 fig m2 r2 y_pred2 rep2 a2
  where "load_dataset L ''penguins'' = Inr d"
    and "loc_columns (dropna d) feature_columns = Inr X"
    and "loc_column (dropna d) ''species'' = Inr y"
    and "train_test_split X y (3 / 10) (fst (rng_permutation L r0 (length (rows X))))
           = Inr (X_train, X_test, y_train, y_test)"
    and "fit L (snd (rng_permutation L r0 (length (rows X)))) (DecisionTreeClassifier L 2)
           X_train y_train = Inr (m1, r1)"
    and "predict L m1 X_test = Inr y_pred1"
    and "accuracy_score y_pred1 (values_of y_test) = Inr a1"
    and "classification_report y_pred1 (values_of y_test) = Inr rep1"
    and "plot_tree L m1 feature_columns (unique (values_of y)) = Inr fig"
    and "fit L r1 m1 X_train y_train = Inr (m2, r2)"
    and "predict L m2 X_test = Inr y_pred2"
    and "classification_report (values_of y_test) y_pred2 = Inr rep2"
    and "accuracy_score (values_of y_test) y_pred2 = Inr a2"
    and "s = \<lparr>imported = all_imports, var_data = Some (dropna d),
            var_feature_columns = Some feature_columns, var_X = Some X, var_y = Some y,
            var_X_train = Some X_train, var_X_test = Some X_test,
            var_y_train = Some y_train, var_y_test = Some y_test,
            var_model = Some m2, var_y_pred = Some y_pred2, var_report = Some rep2,
            var_figure = Some fig, rng = r2, calls = all_calls,
            outputs = [Out_accuracy a1, Out_report rep1, Out_model_accuracy a2,
                       Out_report rep2]\<rparr>"
proof -
  from assms [unfolded notebook_chain split_def]
  obtain d X y t f1 y_pred1 a1 rep1 fig f2 y_pred2 rep2 a2 where
    1: "lib (load_dataset L ''penguins'') = Inr d"
    and 2: "loc_columns (dropna d) feature_columns = Inr X"
    and 3: "loc_column (dropna d) ''species'' = Inr y"
    and 4: "train_test_split X y (3 / 10) (fst (rng_permutation L r0 (length (rows X)))) = Inr t"
    and 5: "lib (fit L (snd (rng_permutation L r0 (length (rows X)))) (DecisionTreeClassifier L 2)
           (fst t) (fst (snd (snd t)))) = Inr f1"
    and 6: "lib (predict L (fst f1) (fst (snd t))) = Inr y_pred1"
    and 7: "accuracy_score y_pred1 (values_of (snd (snd (snd t)))) = Inr a1"
    and 8: "classification_report y_pred1 (values_of (snd (snd (snd t)))) = Inr rep1"
    and 9: "lib (plot_tree L (fst f1) feature_columns (unique (values_of y))) = Inr fig"
    and 10: "lib (fit L (snd f1) (fst f1) (fst t) (fst (snd (snd t)))) = Inr f2"
    and 11: "lib (predict L (fst f2) (fst (snd t))) = Inr y_pred2"
    and 12: "classification_report (values_of (snd (snd (snd t)))) y_pred2 = Inr rep2"
    and 14: "accuracy_score (values_of (snd (snd (snd t)))) y_pred2 = Inr a2"
    and 15: "Inr \<lparr>imported = all_imports, var_data = Some (dropna d),
            var_feature_columns = Some feature_columns, var_X = Some X, var_y = Some y,
            var_X_train = Some (fst t), var_X_test = Some (fst (snd t)),
            var_y_train = Some (fst (snd (snd t))), var_y_test = Some (snd (snd (snd t))),
            var_model = Some (fst f2), var_y_pred = Some y_pred2, var_report = Some rep2,
            var_figure = Some fig, rng = snd f2, calls = all_calls,
            outputs = [Out_accuracy a1, Out_report rep1, Out_model_accuracy a2,
                       Out_report rep2]\<rparr> = (Inr s :: error + _)"
    by (elim and_then_InrE) (rule that)
  show thesis
  proof (rule that [of d X y "fst t" "fst (snd t)" "fst (snd (snd t))" "snd (snd (snd t))"
        "fst f1" "snd f1" y_pred1 a1 rep1 fig "fst f2" "snd f2" y_pred2 rep2 a2])
    show "load_dataset L ''penguins'' = Inr d"
      using 1 by (simp add: lib_Inr)
    show "loc_columns (dropna d) feature_columns = Inr X"
      by (rule 2)
    show "loc_column (dropna d) ''species'' = Inr y"
      by (rule 3)
    show "train_test_split X y (3 / 10) (fst (rng_permutation L r0 (length (rows X))))
           = Inr (fst t, fst (snd t), fst (snd (snd t)), snd (snd (snd t)))"
      using 4 by simp
    show "fit L (snd (rng_permutation L r0 (length (rows X)))) (DecisionTreeClassifier L 2)
           (fst t) (fst (snd (snd t))) = Inr (fst f1, snd f1)"
      using 5 by (simp add: lib_Inr)
    show "predict L (fst f1) (fst (snd t)) = Inr y_pred1"
      using 6 by (simp add: lib_Inr)
    show "accuracy_score y_pred1 (values_of (snd (snd (snd t)))) = Inr a1"
      by (rule 7)
    show "classification_report y_pred1 (values_of (snd (snd (snd t)))) = Inr rep1"
      by (rule 8)
    show "plot_tree L (fst f1) feature_columns (unique (values_of y)) = Inr fig"
      using 9 by (simp add: lib_Inr)
    show "fit L (snd f1) (fst f1) (fst t) (fst (snd (snd t))) = Inr (fst f2, snd f2)"
      using 10 by (simp add: lib_Inr)
    show "predict L (fst f2) (fst (snd t)) = Inr y_pred2"
      using 11 by (simp add: lib_Inr)
    show "classification_report (values_of (snd (snd (snd t)))) y_pred2 = Inr rep2"
      by (rule 12)
    show "accuracy_score (values_of (snd (snd (snd t)))) y_pred2 = Inr a2"
      by (rule 14)
    show "s = \<lparr>imported = all_imports, var_data = Some (dropna d),
            var_feature_columns = Some feature_columns, var_X = Some X, var_y = Some y,
            var_X_train = Some (fst t), var_X_test = Some (fst (snd t)),
            var_y_train = Some (fst (snd (snd t))), var_y_test = Some (snd (snd (snd t))),
            var_model = Some (fst f2), var_y_pred = Some y_pred2, var_report = Some rep2,
            var_figure = Some fig, rng = snd f2, calls = all_calls,
            outputs = [Out_accuracy a1, Out_report rep1, Out_model_accuracy a2,
                       Out_report rep2]\<rparr>"
      using 15 by simp
  qed
qed

lemma notebook_load_only_through_dropna:
  assumes "load_dataset L ''penguins'' = Inr d" and "load' ''penguins'' = Inr d'"
    and "dropna d' = dropna d"
  shows "notebook (L\<lparr>load_dataset := load'\<rparr>) r0 = notebook L r0"
  using assms by (simp add: notebook_chain lib_def and_then_Inr_left)

text \<open>
  C1. \<^verbatim>\<open>data.dropna()\<close> keeps the columns and returns exactly the rows without a
  missing value: every row with a missing value is gone, every row without one is kept,
  unchanged and as often as it occurred, in the original order. The rest of the notebook
  sees the loaded table only through this result: loading another table with the same
  cleaned table gives the same run, and \<^verbatim>\<open>data\<close>, \<^verbatim>\<open>X\<close> and \<^verbatim>\<open>y\<close> of a finished
  run are the cleaned table and its selections.
\<close>

theorem dropna_exact:
  "columns (dropna df) = columns df
   \<and> rows (dropna df) = filter (\<lambda>r. None \<notin> set (snd r)) (rows df)
   \<and> (\<forall>r \<in> set (rows df). None \<in> set (snd r) \<longrightarrow> r \<notin> set (rows (dropna df)))
   \<and> (\<forall>r \<in> set (rows df). None \<notin> set (snd r) \<longrightarrow>
         r \<in> set (rows (dropna df))
         \<and> count (mset (rows (dropna df))) r = count (mset (rows df)) r)
   \<and> subseq (rows (dropna df)) (rows df)
   \<and> (load_dataset L ''penguins'' = Inr d \<and> load' ''penguins'' = Inr d' \<and> dropna d' = dropna d
        \<longrightarrow> notebook (L\<lparr>load_dataset := load'\<rparr>) r0 = notebook L r0)
   \<and> (notebook L r0 = Inr s \<longrightarrow>
        (\<exists>d0 X y. load_dataset L ''penguins'' = Inr d0 \<and> var_data s = Some (dropna d0)
           \<and> loc_columns (dropna d0) feature_columns = Inr X \<and> var_X s = Some X
           \<and> loc_column (dropna d0) ''species'' = Inr y \<and> var_y s = Some y))"
proof (intro conjI)
  show "columns (dropna df) = columns df"
    by (rule dropna_columns)
  show "rows (dropna df) = filter (\<lambda>r. None \<notin> set (snd r)) (rows df)"
    by (rule dropna_rows)
  show "\<forall>r \<in> set (rows df). None \<in> set (snd r) \<longrightarrow> r \<notin> set (rows (dropna df))"
    by (simp add: dropna_rows)
  show "\<forall>r \<in> set (rows df). None \<notin> set (snd r) \<longrightarrow>
         r \<in> set (rows (dropna df))
         \<and> count (mset (rows (dropna df))) r = count (mset (rows df)) r"
    by (simp add: dropna_rows)
  show "subseq (rows (dropna df)) (rows df)"
    by (simp add: dropna_rows)
  show "load_dataset L ''penguins'' = Inr d \<and> load' ''penguins'' = Inr d' \<and> dropna d' = dropna d
        \<longrightarrow> notebook (L\<lparr>load_dataset := load'\<rparr>) r0 = notebook L r0"
    by (intro impI, elim conjE) (rule notebook_load_only_through_dropna)
  show "notebook L r0 = Inr s \<longrightarrow>
        (\<exists>d0 X y. load_dataset L ''penguins'' = Inr d0 \<and> var_data s = Some (dropna d0)
           \<and> loc_columns (dropna d0) feature_columns = Inr X \<and> var_X s = Some X
           \<and> loc_column (dropna d0) ''species'' = Inr y \<and> var_y s = Some y)"
  proof
    assume "notebook L r0 = Inr s"
    then show "\<exists>d0 X y. load_dataset L ''penguins'' = Inr d0 \<and> var_data s = Some (dropna d0)
           \<and> loc_columns (dropna d0) feature_columns = Inr X \<and> var_X s = Some X
           \<and> loc_column (dropna d0) ''species'' = Inr y \<and> var_y s = Some y"
      by (elim notebook_InrE) simp
  qed
qed

theorem dropna_exact_witness:
  "rows (dropna toy_frame) = filter (\<lambda>r. None \<notin> set (snd r)) (rows toy_frame)
   \<and> (3, [Some 0, Some 0, None, None, None, None, None]) \<in> set (rows toy_frame)
   \<and> (3, [Some 0, Some 0, None, None, None, None, None]) \<notin> set (rows (dropna toy_frame))
   \<and> (4, [Some 0, Some 0, Some 367, Some 193, Some 193, Some 3450, Some 0]) \<in> set (rows toy_frame)
   \<and> (4, [Some 0, Some 0, Some 367, Some 193, Some 193, Some 3450, Some 0])
        \<in> set (rows (dropna toy_frame))
   \<and> load_dataset toy_library ''penguins'' = Inr toy_frame
   \<and> dropna (dropna toy_frame) = dropna toy_frame
   \<and> notebook (toy_library\<lparr>load_dataset := \<lambda>_. Inr (dropna toy_frame)\<rparr>) 0
        = notebook toy_library 0
   \<and> notebook toy_library 0 = Inr toy_result
   \<and> var_data toy_result = Some (dropna toy_frame)"
proof -
  note t = dropna_exact [where df = toy_frame and L = toy_library and d = toy_frame
      and load' = "\<lambda>_. Inr (dropna toy_frame)" and d' = "dropna toy_frame" and ?r0.0 = 0
      and s = toy_result]
  have m3: "(3, [Some 0, Some 0, None, None, None, None, None]) \<in> set (rows toy_frame)"
    and n3: "None \<in> set (snd (3::nat, [Some (0::nat), Some 0, None, None, None, None, None]))"
    and m4: "(4, [Some 0, Some 0, Some 367, Some 193, Some 193, Some 3450, Some 0])
               \<in> set (rows toy_frame)"
    and n4: "None \<notin> set (snd (4::nat, [Some (0::nat), Some 0, Some 367, Some 193, Some 193,
               Some 3450, Some 0]))"
    by (simp_all add: toy_frame_def)
  have l: "load_dataset toy_library ''penguins'' = Inr toy_frame"
    by (simp add: toy_library_def)
  have i: "dropna (dropna toy_frame) = dropna toy_frame"
    unfolding toy_dropna by (simp add: dropna_def complete_row_def)
  have v: "var_data toy_result = Some (dropna toy_frame)"
    by (simp add: toy_result_def)
  from t m3 n3 m4 n4 l i v toy_notebook show ?thesis
    by blast
qed

lemma toy_wf: "wf_frame (dropna toy_frame)"
  unfolding toy_dropna by (simp add: wf_frame_def)

lemma loc_extraction:
  assumes X: "loc_columns data feature_columns = Inr X"
    and y: "loc_column data ''species'' = Inr y"
  shows "columns X = [''bill_length_mm'', ''bill_depth_mm'', ''flipper_length_mm'', ''body_mass_g'']
       \<and> length (rows X) = length (rows data) \<and> length y = length (rows data)
       \<and> (\<forall>i < length (rows data).
             fst (rows X ! i) = fst (rows data ! i)
           \<and> y ! i = (fst (rows data ! i), cell data i ''species'')
           \<and> (\<forall>c \<in> set feature_columns. cell X i c = cell data i c))"
proof -
  note Xd = loc_columns_Inr(2) [OF X]
  note yd = loc_column_Inr(2) [OF y]
  have "columns X = [''bill_length_mm'', ''bill_depth_mm'', ''flipper_length_mm'', ''body_mass_g'']"
    by (simp add: Xd feature_columns_def)
  moreover have "length (rows X) = length (rows data)"
    by (simp add: Xd)
  moreover have "length y = length (rows data)"
    by (simp add: yd)
  moreover have "\<forall>i < length (rows data).
             fst (rows X ! i) = fst (rows data ! i)
           \<and> y ! i = (fst (rows data ! i), cell data i ''species'')
           \<and> (\<forall>c \<in> set feature_columns. cell X i c = cell data i c)"
    using loc_columns_cells [OF Xd] loc_column_cells [OF yd] by blast
  ultimately show ?thesis
    by blast
qed

text \<open>
  C3. On a table with distinct column labels that has the four measurement columns and
  the species column, the extraction cell succeeds: \<open>X\<close> has exactly the columns
  \<^verbatim>\<open>bill_length_mm\<close>, \<^verbatim>\<open>bill_depth_mm\<close>, \<^verbatim>\<open>flipper_length_mm\<close>, \<^verbatim>\<open>body_mass_g\<close>,
  \<open>y\<close> is the species column, both have one row per row of the table, and row \<open>i\<close> of
  each carries the index label and the cells of row \<open>i\<close> of the table. In a finished run
  of the notebook that table is the cleaned one.
\<close>

theorem features_and_labels:
  "(var_data s = Some data \<and> wf_frame data \<and> set feature_columns \<subseteq> set (columns data)
      \<and> ''species'' \<in> set (columns data) \<longrightarrow>
      (\<exists>s' X y. cell04 s = Inr s' \<and> var_X s' = Some X \<and> var_y s' = Some y
         \<and> columns X = [''bill_length_mm'', ''bill_depth_mm'', ''flipper_length_mm'', ''body_mass_g'']
         \<and> length (rows X) = length (rows data) \<and> length y = length (rows data)
         \<and> (\<forall>i < length (rows data).
               fst (rows X ! i) = fst (rows data ! i)
             \<and> y ! i = (fst (rows data ! i), cell data i ''species'')
             \<and> (\<forall>c \<in> set feature_columns. cell X i c = cell data i c))))
   \<and> (notebook L r0 = Inr t \<longrightarrow>
      (\<exists>d X y. load_dataset L ''penguins'' = Inr d \<and> var_data t = Some (dropna d)
         \<and> var_X t = Some X \<and> var_y t = Some y
         \<and> columns X = [''bill_length_mm'', ''bill_depth_mm'', ''flipper_length_mm'', ''body_mass_g'']
         \<and> length (rows X) = length (rows (dropna d)) \<and> length y = length (rows (dropna d))
         \<and> (\<forall>i < length (rows (dropna d)).
               fst (rows X ! i) = fst (rows (dropna d) ! i)
             \<and> y ! i = (fst (rows (dropna d) ! i), cell (dropna d) i ''species'')
             \<and> (\<forall>c \<in> set feature_columns. cell X i c = cell (dropna d) i c))))"
proof (intro conjI impI)
  assume h: "var_data s = Some data \<and> wf_frame data \<and> set feature_columns \<subseteq> set (columns data)
      \<and> ''species'' \<in> set (columns data)"
  let ?X = "\<lparr>columns = feature_columns,
              rows = map (\<lambda>r. (fst r, map (\<lambda>c. cell_at (snd r) (column_position c (columns data)))
                                         feature_columns)) (rows data)\<rparr>"
  let ?y = "map (\<lambda>r. (fst r, cell_at (snd r) (column_position ''species'' (columns data)))) (rows data)"
  have X: "loc_columns data feature_columns = Inr ?X"
    using h by (simp add: loc_columns_present)
  have y: "loc_column data ''species'' = Inr ?y"
    using h by (simp add: loc_column_def)
  have c: "cell04 s = Inr (called [Df_loc, Df_loc, Py_print, Py_print]
              (s\<lparr>var_feature_columns := Some feature_columns, var_X := Some ?X, var_y := Some ?y\<rparr>))"
    using h by (simp add: cell04_def get_var_Some and_then_Inr_left X y)
  show "\<exists>s' X y. cell04 s = Inr s' \<and> var_X s' = Some X \<and> var_y s' = Some y
         \<and> columns X = [''bill_length_mm'', ''bill_depth_mm'', ''flipper_length_mm'', ''body_mass_g'']
         \<and> length (rows X) = length (rows data) \<and> length y = length (rows data)
         \<and> (\<forall>i < length (rows data).
               fst (rows X ! i) = fst (rows data ! i)
             \<and> y ! i = (fst (rows data ! i), cell data i ''species'')
             \<and> (\<forall>c \<in> set feature_columns. cell X i c = cell data i c))"
    apply (rule exI [of _ "called [Df_loc, Df_loc, Py_print, Py_print]
              (s\<lparr>var_feature_columns := Some feature_columns, var_X := Some ?X, var_y := Some ?y\<rparr>)"])
    apply (rule exI [of _ ?X])
    apply (rule exI [of _ ?y])
    apply (rule conjI)
     apply (rule c)
    apply (rule conjI)
     apply (simp add: called_def)
    apply (rule conjI)
     apply (simp add: called_def)
    apply (rule loc_extraction [OF X y])
    done
next
  assume "notebook L r0 = Inr t"
  then obtain d X y where d: "load_dataset L ''penguins'' = Inr d"
    and X: "loc_columns (dropna d) feature_columns = Inr X"
    and y: "loc_column (dropna d) ''species'' = Inr y"
    and t: "var_data t = Some (dropna d)" "var_X t = Some X" "var_y t = Some y"
    by (elim notebook_InrE) simp
  show "\<exists>d X y. load_dataset L ''penguins'' = Inr d \<and> var_data t = Some (dropna d)
         \<and> var_X t = Some X \<and> var_y t = Some y
         \<and> columns X = [''bill_length_mm'', ''bill_depth_mm'', ''flipper_length_mm'', ''body_mass_g'']
         \<and> length (rows X) = length (rows (dropna d)) \<and> length y = length (rows (dropna d))
         \<and> (\<forall>i < length (rows (dropna d)).
               fst (rows X ! i) = fst (rows (dropna d) ! i)
             \<and> y ! i = (fst (rows (dropna d) ! i), cell (dropna d) i ''species'')
             \<and> (\<forall>c \<in> set feature_columns. cell X i c = cell (dropna d) i c))"
    using d t loc_extraction [OF X y] by blast
qed

theorem features_and_labels_witness:
  "var_data (empty_env (0::nat)\<lparr>var_data := Some (dropna toy_frame)\<rparr>
      :: (nat, nat option, nat, nat) env) = Some (dropna toy_frame)
   \<and> wf_frame (dropna toy_frame)
   \<and> set feature_columns \<subseteq> set (columns (dropna toy_frame))
   \<and> ''species'' \<in> set (columns (dropna toy_frame))
   \<and> notebook toy_library 0 = Inr toy_result
   \<and> (\<exists>s' X y. cell04 (empty_env (0::nat)\<lparr>var_data := Some (dropna toy_frame)\<rparr>
                      :: (nat, nat option, nat, nat) env) = Inr s'
         \<and> var_X s' = Some X \<and> var_y s' = Some y
         \<and> columns X = [''bill_length_mm'', ''bill_depth_mm'', ''flipper_length_mm'', ''body_mass_g'']
         \<and> length (rows X) = length (rows (dropna toy_frame))
         \<and> length y = length (rows (dropna toy_frame)))
   \<and> (\<exists>d X y. load_dataset toy_library ''penguins'' = Inr d \<and> var_data toy_result = Some (dropna d)
         \<and> var_X toy_result = Some X \<and> var_y toy_result = Some y
         \<and> length (rows X) = length (rows (dropna d)) \<and> length y = length (rows (dropna d)))"
proof -
  note t = features_and_labels [where s = "empty_env (0::nat)\<lparr>var_data := Some (dropna toy_frame)\<rparr>
        :: (nat, nat option, nat, nat) env" and data = "dropna toy_frame"
      and L = toy_library and ?r0.0 = 0 and t = toy_result]
  have h1: "var_data (empty_env (0::nat)\<lparr>var_data := Some (dropna toy_frame)\<rparr>
      :: (nat, nat option, nat, nat) env) = Some (dropna toy_frame)"
    by simp
  have h3: "set feature_columns \<subseteq> set (columns (dropna toy_frame))"
    and h4: "''species'' \<in> set (columns (dropna toy_frame))"
    unfolding toy_dropna by (simp_all add: feature_columns_def)
  from t h1 toy_wf h3 h4 toy_notebook show ?thesis
    by blast
qed

section \<open>Reports\<close>

lemma classification_report_Inr:
  assumes "classification_report a b = Inr r"
  shows "length a = length b"
    and "r = \<lparr>per_class = map (class_line a b) (sort (remdups (a @ b))),
              accuracy = true_div (correct a b) (length a)\<rparr>"
  using assms by (auto simp: classification_report_def split: if_splits)

lemma class_line_swap:
  "precision (snd (class_line b a c)) = recall (snd (class_line a b c))"
  "recall (snd (class_line b a c)) = precision (snd (class_line a b c))"
  "f1_score (snd (class_line b a c)) = f1_score (snd (class_line a b c))"
  "fst (class_line b a c) = fst (class_line a b c)"
proof -
  have p: "precision_of c b a = recall_of c a b" and q: "recall_of c b a = precision_of c a b"
    by (simp_all only: precision_recall_swap)
  show "precision (snd (class_line b a c)) = recall (snd (class_line a b c))"
    by (simp add: class_line_def p)
  show "recall (snd (class_line b a c)) = precision (snd (class_line a b c))"
    by (simp add: class_line_def q)
  have "f1_of (recall_of c a b) (precision_of c a b) = f1_of (precision_of c a b) (recall_of c a b)"
    by (rule f1_of_commute)
  then show "f1_score (snd (class_line b a c)) = f1_score (snd (class_line a b c))"
    by (simp add: class_line_def p q)
  show "fst (class_line b a c) = fst (class_line a b c)"
    by (simp add: class_line_def)
qed

lemma classification_report_swap:
  assumes "classification_report a b = Inr r"
  shows "\<exists>r'. classification_report b a = Inr r'
         \<and> map fst (per_class r') = map fst (per_class r)
         \<and> (\<forall>k < length (per_class r).
               precision (snd (per_class r' ! k)) = recall (snd (per_class r ! k))
             \<and> recall (snd (per_class r' ! k)) = precision (snd (per_class r ! k))
             \<and> f1_score (snd (per_class r' ! k)) = f1_score (snd (per_class r ! k)))
         \<and> accuracy r' = accuracy r"
proof -
  note len = classification_report_Inr(1) [OF assms]
  note r = classification_report_Inr(2) [OF assms]
  let ?r' = "\<lparr>per_class = map (class_line b a) (sort (remdups (a @ b))),
              accuracy = true_div (correct a b) (length a)\<rparr>"
  have "classification_report b a = Inr ?r'"
    using len by (simp add: classification_report_def labels_commute [of b a] correct_commute [of b a])
  moreover have "map fst (per_class ?r') = map fst (per_class r)"
    by (simp add: r class_line_swap(4) [of b a])
  moreover have "\<forall>k < length (per_class r).
               precision (snd (per_class ?r' ! k)) = recall (snd (per_class r ! k))
             \<and> recall (snd (per_class ?r' ! k)) = precision (snd (per_class r ! k))
             \<and> f1_score (snd (per_class ?r' ! k)) = f1_score (snd (per_class r ! k))"
    by (simp add: r class_line_swap [of b a])
  moreover have "accuracy ?r' = accuracy r"
    by (simp add: r)
  ultimately show ?thesis
    by blast
qed

text \<open>
  C8. Exchanging the two arguments of \<^verbatim>\<open>classification_report\<close> gives a report with
  the same labels in which, label by label, precision and recall have changed places,
  with the F1 score and the accuracy unchanged. The notebook's two evaluation cells call
  it in opposite orders: the first report is \<^verbatim>\<open>classification_report(y_pred, y_test)\<close>,
  the second \<^verbatim>\<open>classification_report(y_test, y_pred)\<close>. So what the first prints as
  precision is what the second's convention calls recall.
\<close>

theorem classification_report_argument_order:
  "(classification_report a b = Inr r \<longrightarrow>
      (\<exists>r'. classification_report b a = Inr r'
         \<and> map fst (per_class r') = map fst (per_class r)
         \<and> (\<forall>k < length (per_class r).
               precision (snd (per_class r' ! k)) = recall (snd (per_class r ! k))
             \<and> recall (snd (per_class r' ! k)) = precision (snd (per_class r ! k))
             \<and> f1_score (snd (per_class r' ! k)) = f1_score (snd (per_class r ! k)))
         \<and> accuracy r' = accuracy r))
   \<and> (notebook L r0 = Inr s \<longrightarrow>
      (\<exists>y_test y_pred1 y_pred2 a1 rep1 a2 rep2.
           var_y_test s = Some y_test
         \<and> outputs s = [Out_accuracy a1, Out_report rep1, Out_model_accuracy a2, Out_report rep2]
         \<and> classification_report y_pred1 (values_of y_test) = Inr rep1
         \<and> classification_report (values_of y_test) y_pred2 = Inr rep2))"
proof (intro conjI impI)
  assume "classification_report a b = Inr r"
  then show "\<exists>r'. classification_report b a = Inr r'
         \<and> map fst (per_class r') = map fst (per_class r)
         \<and> (\<forall>k < length (per_class r).
               precision (snd (per_class r' ! k)) = recall (snd (per_class r ! k))
             \<and> recall (snd (per_class r' ! k)) = precision (snd (per_class r ! k))
             \<and> f1_score (snd (per_class r' ! k)) = f1_score (snd (per_class r ! k)))
         \<and> accuracy r' = accuracy r"
    by (rule classification_report_swap)
next
  assume "notebook L r0 = Inr s"
  then show "\<exists>y_test y_pred1 y_pred2 a1 rep1 a2 rep2.
           var_y_test s = Some y_test
         \<and> outputs s = [Out_accuracy a1, Out_report rep1, Out_model_accuracy a2, Out_report rep2]
         \<and> classification_report y_pred1 (values_of y_test) = Inr rep1
         \<and> classification_report (values_of y_test) y_pred2 = Inr rep2"
    by (elim notebook_InrE) (simp, blast)
qed

theorem classification_report_argument_order_witness:
  "classification_report [Some 0, Some 0] [Some 2, Some (0::nat)] = Inr toy_report1
   \<and> classification_report [Some 2, Some (0::nat)] [Some 0, Some 0] = Inr toy_report2
   \<and> map fst (per_class toy_report2) = map fst (per_class toy_report1)
   \<and> precision (snd (per_class toy_report2 ! 0)) = recall (snd (per_class toy_report1 ! 0))
   \<and> recall (snd (per_class toy_report2 ! 0)) = precision (snd (per_class toy_report1 ! 0))
   \<and> precision (snd (per_class toy_report1 ! 0)) = 1
   \<and> precision (snd (per_class toy_report2 ! 0)) = 1 / 2
   \<and> accuracy toy_report2 = accuracy toy_report1
   \<and> notebook toy_library 0 = Inr toy_result
   \<and> var_y_test toy_result = Some toy_y_test
   \<and> outputs toy_result = [Out_accuracy (Finite (1 / 2)), Out_report toy_report1,
                            Out_model_accuracy (Finite (1 / 2)), Out_report toy_report2]"
proof -
  note t = classification_report_argument_order [where a = "[Some 0, Some 0]"
      and b = "[Some 2, Some (0::nat)]" and r = toy_report1 and L = toy_library and ?r0.0 = 0
      and s = toy_result]
  have k: "0 < length (per_class toy_report1)"
    by (simp add: toy_report1_def)
  from t toy_report1 obtain r' where
    r': "classification_report [Some 2, Some (0::nat)] [Some 0, Some 0] = Inr r'"
      "map fst (per_class r') = map fst (per_class toy_report1)"
      "\<forall>k < length (per_class toy_report1).
               precision (snd (per_class r' ! k)) = recall (snd (per_class toy_report1 ! k))
             \<and> recall (snd (per_class r' ! k)) = precision (snd (per_class toy_report1 ! k))
             \<and> f1_score (snd (per_class r' ! k)) = f1_score (snd (per_class toy_report1 ! k))"
      "accuracy r' = accuracy toy_report1"
    by blast
  from r'(1) have e: "r' = toy_report2"
    unfolding toy_report2 by simp
  from r'(2-4) k
  have "map fst (per_class toy_report2) = map fst (per_class toy_report1)
      \<and> precision (snd (per_class toy_report2 ! 0)) = recall (snd (per_class toy_report1 ! 0))
      \<and> recall (snd (per_class toy_report2 ! 0)) = precision (snd (per_class toy_report1 ! 0))
      \<and> accuracy toy_report2 = accuracy toy_report1"
    unfolding e by blast
  moreover have "precision (snd (per_class toy_report1 ! 0)) = 1"
    "precision (snd (per_class toy_report2 ! 0)) = 1 / 2"
    by (simp_all add: toy_report1_def toy_report2_def)
  moreover have "var_y_test toy_result = Some toy_y_test"
    "outputs toy_result = [Out_accuracy (Finite (1 / 2)), Out_report toy_report1,
                            Out_model_accuracy (Finite (1 / 2)), Out_report toy_report2]"
    by (simp_all add: toy_result_def)
  ultimately show ?thesis
    using toy_report1 toy_report2 toy_notebook by blast
qed

section \<open>Order, calls and exceptions of a run\<close>

lemma appendsI: "(\<And>s s'. c s = Inr s' \<Longrightarrow> calls s' = calls s @ cs) \<Longrightarrow> appends c cs"
  by (simp add: appends_def)

lemmas env_ops = import_names_def called_def shown_def

lemma cells_append:
  "appends cell01 []" "appends (cell02 L) [Sns_load_dataset, Df_head]" "appends cell03 [Df_dropna]"
  "appends cell04 [Df_loc, Df_loc, Py_print, Py_print]" "appends cell05 [Df_head]"
  "appends cell06 [Series_head]"
  "appends (cell07 L) [Sk_train_test_split, Py_print, Py_print, Py_print, Py_print]"
  "appends cell08 []" "appends cell09 []" "appends cell10 [Py_help]"
  "appends (cell11 L) [Sk_DecisionTreeClassifier]" "appends (cell12 L) [Sk_fit]"
  "appends (cell13 L) [Sk_predict]" "appends cell14 []" "appends cell15 [Sk_accuracy_score]"
  "appends cell16 [Sk_classification_report, Py_print]"
  "appends (cell17 L) [Plt_subplots, Series_unique, Sk_plot_tree]" "appends cell18 []"
  "appends (cell19 L) [Sk_fit, Sk_predict, Sk_classification_report, Sk_score, Py_print, Py_print]"
  by (rule appendsI, auto simp: cell_defs and_then_Inr env_ops Let_def split_def)+

lemma run_appends:
  assumes "list_all2 appends cells css" and "run cells s = Inr s'"
  shows "calls s' = calls s @ concat css"
  using assms
proof (induction cells css arbitrary: s rule: list_all2_induct)
  case Nil
  then show ?case by simp
next
  case (Cons c cells cs css)
  from Cons.prems obtain s1 where 1: "c s = Inr s1" and 2: "run cells s1 = Inr s'"
    by (auto split: sum.splits)
  from Cons.hyps(1) 1 have "calls s1 = calls s @ cs"
    by (simp add: appends_def)
  with Cons.IH [OF 2] show ?case
    by simp
qed

lemma notebook_cells_appends: "list_all2 appends (notebook_cells L) cell_calls"
  by (simp add: notebook_cells_def cell_calls_def cells_append)

lemma concat_cell_calls: "concat cell_calls = all_calls"
  by (simp add: cell_calls_def all_calls_def)

lemma partial_run_calls:
  assumes "run (take k (notebook_cells L)) (empty_env r0) = Inr s"
  shows "calls s = concat (take k cell_calls)" and "prefix (calls s) all_calls"
proof -
  have "list_all2 appends (take k (notebook_cells L)) (take k cell_calls)"
    using notebook_cells_appends by (rule list_all2_takeI)
  from run_appends [OF this assms] show c: "calls s = concat (take k cell_calls)"
    by (simp add: empty_env_def)
  have "concat (take k cell_calls) @ concat (drop k cell_calls) = all_calls"
    by (simp only: concat_append [symmetric] append_take_drop_id concat_cell_calls)
  then show "prefix (calls s) all_calls"
    unfolding c by (metis prefixI)
qed

lemma no_NameError_and_then:
  assumes "\<And>v. m \<noteq> Inl (NameError v)" and "\<And>x v. f x \<noteq> Inl (NameError v)"
  shows "and_then m f \<noteq> Inl (NameError v)"
  using assms by (cases m) (auto simp: and_then_def)

lemma no_NameError_lib: "lib r \<noteq> Inl (NameError v)"
  by (simp add: lib_Inl)

lemma no_NameError_take_rows: "take_rows xs idx \<noteq> Inl (NameError v)"
  by (simp add: take_rows_def)

lemma no_NameError_library:
  "loc_columns df cols \<noteq> Inl (NameError v)"
  "loc_column df c \<noteq> Inl (NameError v)"
  "train_test_split X y t perm \<noteq> Inl (NameError v)"
  "accuracy_score a b \<noteq> Inl (NameError v)"
  "classification_report a' b' \<noteq> Inl (NameError v)"
  by (auto simp: loc_columns_def loc_column_def train_test_split_def accuracy_score_def
      classification_report_def Let_def and_then_Inl no_NameError_take_rows split: list.splits)

lemma notebook_no_NameError: "notebook L r0 \<noteq> Inl (NameError v)"
  unfolding notebook_chain split_def
  by (intro no_NameError_and_then no_NameError_lib no_NameError_library) simp

lemma stages_all_calls:
  "stages all_calls = [Load, Clean, Split, Fit, Predict, Score, Plot, Fit, Predict, Score]"
  by (simp add: stages_def all_calls_def List.map_filter_simps)

lemma run_cell_raises:
  assumes "cells = pre @ c # post" and "run pre s0 = Inr s" and "c s = Inl e"
  shows "run cells s0 = Inl e"
  using assms by (simp add: run_append and_then_Inr_left)

text \<open>
  C4 as stated fails: the plot is not the last stage. The last code cell calls
  \<^verbatim>\<open>model.fit\<close>, \<^verbatim>\<open>model.predict\<close>, \<^verbatim>\<open>classification_report\<close> and
  \<^verbatim>\<open>model.score\<close> after \<^verbatim>\<open>plot_tree\<close>, so the stages of a finished run are ten,
  not the seven of the claim, and the run ends with a scoring stage.
\<close>

theorem stage_order_counterexample:
  "calls_of (notebook toy_library 0) = all_calls
   \<and> stages (calls_of (notebook toy_library 0))
       = [Load, Clean, Split, Fit, Predict, Score, Plot, Fit, Predict, Score]
   \<and> stages (calls_of (notebook toy_library 0))
       \<noteq> [Load, Clean, Split, Fit, Predict, Score, Plot]
   \<and> last (stages (calls_of (notebook toy_library 0))) = Score"
proof -
  have c: "calls_of (notebook toy_library 0) = all_calls"
    by (simp add: toy_notebook calls_of_def toy_result_def)
  show ?thesis
    unfolding c by (simp add: stages_all_calls)
qed

text \<open>
  C4, amended. The notebook's calls come in one fixed order. A run of the first \<open>k\<close>
  cells has made a prefix of the call sequence \<open>all_calls\<close>, a finished run all of it,
  and the stages of a finished run are load, clean, split, fit, predict, score, plot
  followed by the last cell's second fit, predict and score. No cell ever reads a name
  that an earlier cell has not bound (the run never ends in \<^verbatim>\<open>NameError\<close>), and in a
  finished run each stage has worked on results of earlier stages: the cleaned table is
  \<^verbatim>\<open>dropna\<close> of the loaded one, the split is of its selections, the classifier is
  fitted on the training part, the predictions are its predictions on the test part,
  the score compares them with the test labels, the plot is of the fitted classifier,
  and the last cell refits that classifier on the same training part and predicts and
  scores on the same test part.
\<close>

theorem stage_order:
  "notebook L r0 \<noteq> Inl (NameError v)
   \<and> (run (take k (notebook_cells L)) (empty_env r0) = Inr s \<longrightarrow> prefix (calls s) all_calls)
   \<and> stages all_calls = [Load, Clean, Split, Fit, Predict, Score, Plot, Fit, Predict, Score]
   \<and> take 7 (stages all_calls) = [Load, Clean, Split, Fit, Predict, Score, Plot]
   \<and> (notebook L r0 = Inr t \<longrightarrow>
        calls t = all_calls
      \<and> stages (calls t)
          = [Load, Clean, Split, Fit, Predict, Score, Plot, Fit, Predict, Score]
      \<and> (\<exists>d X y X_train X_test y_train y_test m1 r1 y_pred1 a1 fig m2 r2 y_pred2 rep2 a2.
            load_dataset L ''penguins'' = Inr d
          \<and> var_data t = Some (dropna d)
          \<and> loc_columns (dropna d) feature_columns = Inr X
          \<and> loc_column (dropna d) ''species'' = Inr y
          \<and> train_test_split X y (3 / 10) (fst (rng_permutation L r0 (length (rows X))))
               = Inr (X_train, X_test, y_train, y_test)
          \<and> fit L (snd (rng_permutation L r0 (length (rows X)))) (DecisionTreeClassifier L 2)
               X_train y_train = Inr (m1, r1)
          \<and> predict L m1 X_test = Inr y_pred1
          \<and> accuracy_score y_pred1 (values_of y_test) = Inr a1
          \<and> plot_tree L m1 feature_columns (unique (values_of y)) = Inr fig
          \<and> fit L r1 m1 X_train y_train = Inr (m2, r2)
          \<and> predict L m2 X_test = Inr y_pred2
          \<and> classification_report (values_of y_test) y_pred2 = Inr rep2
          \<and> accuracy_score (values_of y_test) y_pred2 = Inr a2))"
proof (intro conjI impI)
  show "notebook L r0 \<noteq> Inl (NameError v)"
    by (rule notebook_no_NameError)
  show "prefix (calls s) all_calls" if "run (take k (notebook_cells L)) (empty_env r0) = Inr s"
    using that by (rule partial_run_calls(2))
  show "stages all_calls = [Load, Clean, Split, Fit, Predict, Score, Plot, Fit, Predict, Score]"
    by (rule stages_all_calls)
  show "take 7 (stages all_calls) = [Load, Clean, Split, Fit, Predict, Score, Plot]"
    by (simp add: stages_all_calls)
  show "calls t = all_calls" if "notebook L r0 = Inr t"
    using that by (elim notebook_InrE) simp
  show "stages (calls t)
          = [Load, Clean, Split, Fit, Predict, Score, Plot, Fit, Predict, Score]"
    if "notebook L r0 = Inr t"
  proof -
    from that have "calls t = all_calls"
      by (elim notebook_InrE) simp
    then show ?thesis
      by (simp only: stages_all_calls)
  qed
  show "\<exists>d X y X_train X_test y_train y_test m1 r1 y_pred1 a1 fig m2 r2 y_pred2 rep2 a2.
            load_dataset L ''penguins'' = Inr d
          \<and> var_data t = Some (dropna d)
          \<and> loc_columns (dropna d) feature_columns = Inr X
          \<and> loc_column (dropna d) ''species'' = Inr y
          \<and> train_test_split X y (3 / 10) (fst (rng_permutation L r0 (length (rows X))))
               = Inr (X_train, X_test, y_train, y_test)
          \<and> fit L (snd (rng_permutation L r0 (length (rows X)))) (DecisionTreeClassifier L 2)
               X_train y_train = Inr (m1, r1)
          \<and> predict L m1 X_test = Inr y_pred1
          \<and> accuracy_score y_pred1 (values_of y_test) = Inr a1
          \<and> plot_tree L m1 feature_columns (unique (values_of y)) = Inr fig
          \<and> fit L r1 m1 X_train y_train = Inr (m2, r2)
          \<and> predict L m2 X_test = Inr y_pred2
          \<and> classification_report (values_of y_test) y_pred2 = Inr rep2
          \<and> accuracy_score (values_of y_test) y_pred2 = Inr a2"
    if "notebook L r0 = Inr t"
    using that by (elim notebook_InrE) simp
qed

lemma toy_two_cells:
  "run (take 2 (notebook_cells toy_library)) (empty_env 0)
     = Inr (called [Sns_load_dataset, Df_head]
             ((import_names [''sns'', ''plt''] (empty_env 0))\<lparr>var_data := Some toy_frame\<rparr>))"
  by (simp add: notebook_cells_def cell01_def cell02_def need_def import_names_def
      and_then_Inr_left lib_def toy_library_def)

theorem stage_order_witness:
  "run (take 2 (notebook_cells toy_library)) (empty_env 0)
     = Inr (called [Sns_load_dataset, Df_head]
             ((import_names [''sns'', ''plt''] (empty_env 0))\<lparr>var_data := Some toy_frame\<rparr>))
   \<and> prefix (calls (called [Sns_load_dataset, Df_head]
             ((import_names [''sns'', ''plt''] (empty_env (0::nat)))\<lparr>var_data := Some toy_frame\<rparr>)
             :: (nat, nat option, nat, nat) env)) all_calls
   \<and> notebook toy_library 0 = Inr toy_result
   \<and> calls toy_result = all_calls
   \<and> stages (calls toy_result)
       = [Load, Clean, Split, Fit, Predict, Score, Plot, Fit, Predict, Score]
   \<and> (\<exists>d. load_dataset toy_library ''penguins'' = Inr d \<and> var_data toy_result = Some (dropna d))"
proof -
  note t = stage_order [where L = toy_library and ?r0.0 = 0 and k = 2 and t = toy_result
      and s = "called [Sns_load_dataset, Df_head]
             ((import_names [''sns'', ''plt''] (empty_env 0))\<lparr>var_data := Some toy_frame\<rparr>)"]
  from t toy_two_cells toy_notebook show ?thesis
    by blast
qed

text \<open>
  C7 as stated fails: besides the dataset load and the calls to the machine-learning
  library, a run calls matplotlib (\<^verbatim>\<open>plt.subplots\<close>), pandas (\<^verbatim>\<open>dropna\<close> among
  others) and the built-in \<^verbatim>\<open>print\<close>.
\<close>

theorem external_calls_counterexample:
  "calls_of (notebook toy_library 0) = all_calls
   \<and> Plt_subplots \<in> set all_calls \<and> \<not> dataset_or_ml_call Plt_subplots
   \<and> Df_dropna \<in> set all_calls \<and> \<not> dataset_or_ml_call Df_dropna
   \<and> Py_print \<in> set all_calls \<and> \<not> dataset_or_ml_call Py_print"
  by (simp add: toy_notebook calls_of_def toy_result_def dataset_or_ml_call_def)
     (simp add: all_calls_def)

text \<open>
  C7, amended. Every run makes a prefix of the call sequence \<open>all_calls\<close>, a finished
  run all of it. It holds one dataset load; its calls to the dataset loader and the
  machine-learning library are \<^verbatim>\<open>train_test_split\<close>, the classifier (constructor,
  \<^verbatim>\<open>fit\<close>, \<^verbatim>\<open>predict\<close>, \<^verbatim>\<open>score\<close>), \<^verbatim>\<open>accuracy_score\<close>,
  \<^verbatim>\<open>classification_report\<close> and \<^verbatim>\<open>plot_tree\<close>; the others are the pandas methods
  \<^verbatim>\<open>head\<close>, \<^verbatim>\<open>dropna\<close>, \<^verbatim>\<open>.loc\<close> and \<^verbatim>\<open>unique\<close>, matplotlib's
  \<^verbatim>\<open>plt.subplots\<close>, and the built-ins \<^verbatim>\<open>print\<close> and \<^verbatim>\<open>help\<close>.
\<close>

theorem external_calls:
  "(run (take k (notebook_cells L)) (empty_env r0) = Inr s \<longrightarrow> prefix (calls s) all_calls)
   \<and> (notebook L r0 = Inr t \<longrightarrow> calls t = all_calls)
   \<and> count_list all_calls Sns_load_dataset = 1
   \<and> set (filter dataset_or_ml_call all_calls)
       = {Sns_load_dataset, Sk_train_test_split, Sk_DecisionTreeClassifier, Sk_fit, Sk_predict,
          Sk_score, Sk_accuracy_score, Sk_classification_report, Sk_plot_tree}
   \<and> set (filter (\<lambda>c. \<not> dataset_or_ml_call c) all_calls)
       = {Df_head, Df_dropna, Df_loc, Series_head, Series_unique, Plt_subplots, Py_print, Py_help}
   \<and> provider_of ` {Df_head, Df_dropna, Df_loc, Series_head, Series_unique, Plt_subplots,
                      Py_print, Py_help} = {Pandas, Matplotlib, Builtin}"
proof (intro conjI impI)
  show "prefix (calls s) all_calls" if "run (take k (notebook_cells L)) (empty_env r0) = Inr s"
    using that by (rule partial_run_calls(2))
  show "calls t = all_calls" if "notebook L r0 = Inr t"
    using that by (elim notebook_InrE) simp
  show "count_list all_calls Sns_load_dataset = 1"
    by (simp add: all_calls_def)
  show "set (filter dataset_or_ml_call all_calls)
       = {Sns_load_dataset, Sk_train_test_split, Sk_DecisionTreeClassifier, Sk_fit, Sk_predict,
          Sk_score, Sk_accuracy_score, Sk_classification_report, Sk_plot_tree}"
    by (auto simp: all_calls_def dataset_or_ml_call_def)
  show "set (filter (\<lambda>c. \<not> dataset_or_ml_call c) all_calls)
       = {Df_head, Df_dropna, Df_loc, Series_head, Series_unique, Plt_subplots, Py_print, Py_help}"
    by (auto simp: all_calls_def dataset_or_ml_call_def)
  show "provider_of ` {Df_head, Df_dropna, Df_loc, Series_head, Series_unique, Plt_subplots,
                      Py_print, Py_help} = {Pandas, Matplotlib, Builtin}"
    by auto
qed

theorem external_calls_witness:
  "run (take 2 (notebook_cells toy_library)) (empty_env 0)
     = Inr (called [Sns_load_dataset, Df_head]
             ((import_names [''sns'', ''plt''] (empty_env 0))\<lparr>var_data := Some toy_frame\<rparr>))
   \<and> prefix (calls (called [Sns_load_dataset, Df_head]
             ((import_names [''sns'', ''plt''] (empty_env (0::nat)))\<lparr>var_data := Some toy_frame\<rparr>)
             :: (nat, nat option, nat, nat) env)) all_calls
   \<and> notebook toy_library 0 = Inr toy_result
   \<and> calls toy_result = all_calls"
proof -
  note t = external_calls [where L = toy_library and ?r0.0 = 0 and k = 2 and t = toy_result
      and s = "called [Sns_load_dataset, Df_head]
             ((import_names [''sns'', ''plt''] (empty_env 0))\<lparr>var_data := Some toy_frame\<rparr>)"]
  from t toy_two_cells toy_notebook show ?thesis
    by blast
qed

text \<open>
  C6. The notebook ends in an exception exactly when one of its library calls raises
  after all earlier ones have returned, and then it ends in that call's exception:
  nothing is caught, replaced or retried, and the only thing done to the loaded table
  before it is used is \<^verbatim>\<open>dropna\<close>. In terms of cells: when a cell raises after the cells
  before it have returned, the notebook ends in that exception.
\<close>

theorem errors_propagate:
  "(notebook L r0 = Inl e \<longleftrightarrow>
   (\<exists>x. load_dataset L ''penguins'' = Inl x \<and> e = LibraryError x) \<or>
   (\<exists>d. load_dataset L ''penguins'' = Inr d \<and>
     (loc_columns (dropna d) feature_columns = Inl e \<or>
     (\<exists>X. loc_columns (dropna d) feature_columns = Inr X \<and>
       (loc_column (dropna d) ''species'' = Inl e \<or>
       (\<exists>y. loc_column (dropna d) ''species'' = Inr y \<and>
         (train_test_split X y (3 / 10) (fst (rng_permutation L r0 (length (rows X)))) = Inl e \<or>
         (\<exists>X_train X_test y_train y_test.
            train_test_split X y (3 / 10) (fst (rng_permutation L r0 (length (rows X))))
              = Inr (X_train, X_test, y_train, y_test) \<and>
           ((\<exists>x. fit L (snd (rng_permutation L r0 (length (rows X)))) (DecisionTreeClassifier L 2)
                   X_train y_train = Inl x \<and> e = LibraryError x) \<or>
           (\<exists>m1 r1. fit L (snd (rng_permutation L r0 (length (rows X)))) (DecisionTreeClassifier L 2)
                   X_train y_train = Inr (m1, r1) \<and>
             ((\<exists>x. predict L m1 X_test = Inl x \<and> e = LibraryError x) \<or>
             (\<exists>y_pred1. predict L m1 X_test = Inr y_pred1 \<and>
               (accuracy_score y_pred1 (values_of y_test) = Inl e \<or>
               (\<exists>a1. accuracy_score y_pred1 (values_of y_test) = Inr a1 \<and>
                 (classification_report y_pred1 (values_of y_test) = Inl e \<or>
                 (\<exists>rep1. classification_report y_pred1 (values_of y_test) = Inr rep1 \<and>
                   ((\<exists>x. plot_tree L m1 feature_columns (unique (values_of y)) = Inl x
                         \<and> e = LibraryError x) \<or>
                   (\<exists>fig. plot_tree L m1 feature_columns (unique (values_of y)) = Inr fig \<and>
                     ((\<exists>x. fit L r1 m1 X_train y_train = Inl x \<and> e = LibraryError x) \<or>
                     (\<exists>m2 r2. fit L r1 m1 X_train y_train = Inr (m2, r2) \<and>
                       ((\<exists>x. predict L m2 X_test = Inl x \<and> e = LibraryError x) \<or>
                       (\<exists>y_pred2. predict L m2 X_test = Inr y_pred2 \<and>
                         (classification_report (values_of y_test) y_pred2 = Inl e \<or>
                         (\<exists>rep2. classification_report (values_of y_test) y_pred2 = Inr rep2 \<and>
                            accuracy_score (values_of y_test) y_pred2 = Inl e
                         ))))))))))))))))))))))))
   \<and> (notebook_cells L = pre @ c # post \<and> run pre (empty_env r0) = Inr s \<and> c s = Inl e'
        \<longrightarrow> notebook L r0 = Inl e')"
proof (rule conjI)
  show "notebook L r0 = Inl e \<longleftrightarrow>
   (\<exists>x. load_dataset L ''penguins'' = Inl x \<and> e = LibraryError x) \<or>
   (\<exists>d. load_dataset L ''penguins'' = Inr d \<and>
     (loc_columns (dropna d) feature_columns = Inl e \<or>
     (\<exists>X. loc_columns (dropna d) feature_columns = Inr X \<and>
       (loc_column (dropna d) ''species'' = Inl e \<or>
       (\<exists>y. loc_column (dropna d) ''species'' = Inr y \<and>
         (train_test_split X y (3 / 10) (fst (rng_permutation L r0 (length (rows X)))) = Inl e \<or>
         (\<exists>X_train X_test y_train y_test.
            train_test_split X y (3 / 10) (fst (rng_permutation L r0 (length (rows X))))
              = Inr (X_train, X_test, y_train, y_test) \<and>
           ((\<exists>x. fit L (snd (rng_permutation L r0 (length (rows X)))) (DecisionTreeClassifier L 2)
                   X_train y_train = Inl x \<and> e = LibraryError x) \<or>
           (\<exists>m1 r1. fit L (snd (rng_permutation L r0 (length (rows X)))) (DecisionTreeClassifier L 2)
                   X_train y_train = Inr (m1, r1) \<and>
             ((\<exists>x. predict L m1 X_test = Inl x \<and> e = LibraryError x) \<or>
             (\<exists>y_pred1. predict L m1 X_test = Inr y_pred1 \<and>
               (accuracy_score y_pred1 (values_of y_test) = Inl e \<or>
               (\<exists>a1. accuracy_score y_pred1 (values_of y_test) = Inr a1 \<and>
                 (classification_report y_pred1 (values_of y_test) = Inl e \<or>
                 (\<exists>rep1. classification_report y_pred1 (values_of y_test) = Inr rep1 \<and>
                   ((\<exists>x. plot_tree L m1 feature_columns (unique (values_of y)) = Inl x
                         \<and> e = LibraryError x) \<or>
                   (\<exists>fig. plot_tree L m1 feature_columns (unique (values_of y)) = Inr fig \<and>
                     ((\<exists>x. fit L r1 m1 X_train y_train = Inl x \<and> e = LibraryError x) \<or>
                     (\<exists>m2 r2. fit L r1 m1 X_train y_train = Inr (m2, r2) \<and>
                       ((\<exists>x. predict L m2 X_test = Inl x \<and> e = LibraryError x) \<or>
                       (\<exists>y_pred2. predict L m2 X_test = Inr y_pred2 \<and>
                         (classification_report (values_of y_test) y_pred2 = Inl e \<or>
                         (\<exists>rep2. classification_report (values_of y_test) y_pred2 = Inr rep2 \<and>
                            accuracy_score (values_of y_test) y_pred2 = Inl e
                         )))))))))))))))))))))))"
    unfolding notebook_chain split_def
    by (simp add: and_then_Inl lib_Inl lib_Inr)
  show "notebook_cells L = pre @ c # post \<and> run pre (empty_env r0) = Inr s \<and> c s = Inl e'
        \<longrightarrow> notebook L r0 = Inl e'"
    unfolding notebook_def by (intro impI, elim conjE) (rule run_cell_raises)
qed

theorem errors_propagate_witness:
  "notebook_cells offline_library
     = [cell01] @ cell02 offline_library # drop 2 (notebook_cells offline_library)
   \<and> run [cell01] (empty_env 0)
       = Inr (import_names [''sns'', ''plt''] (empty_env 0) :: (nat, nat option, nat, nat) env)
   \<and> cell02 offline_library (import_names [''sns'', ''plt''] (empty_env 0))
       = Inl (LibraryError ''URLError'')
   \<and> load_dataset offline_library ''penguins'' = Inl ''URLError''
   \<and> notebook offline_library 0 = Inl (LibraryError ''URLError'')"
proof -
  note t = errors_propagate [where L = offline_library and pre = "[cell01]"
      and c = "cell02 offline_library" and post = "drop 2 (notebook_cells offline_library)"
      and ?r0.0 = 0 and s = "import_names [''sns'', ''plt''] (empty_env 0)"
      and e' = "LibraryError ''URLError''" and e = "LibraryError ''URLError''"]
  have 1: "notebook_cells offline_library
     = [cell01] @ cell02 offline_library # drop 2 (notebook_cells offline_library)"
    by (simp add: notebook_cells_def)
  have 2: "run [cell01] (empty_env 0) = Inr (import_names [''sns'', ''plt''] (empty_env 0)
             :: (nat, nat option, nat, nat) env)"
    by (simp add: cell01_def)
  have 3: "cell02 offline_library (import_names [''sns'', ''plt''] (empty_env 0))
       = Inl (LibraryError ''URLError'')"
    by (simp add: cell02_def need_def import_names_def and_then_Inr_left and_then_Inl_left
        lib_def offline_library_def)
  have 4: "load_dataset offline_library ''penguins'' = Inl ''URLError''"
    by (simp add: offline_library_def)
  from t [THEN conjunct2] 1 2 3
  have 5: "notebook offline_library 0 = Inl (LibraryError ''URLError'')"
    by blast
  from 1 2 3 4 5 show ?thesis
    by blast
qed

end
